theory Spec2Isabelle
  imports Complex_Main
begin

section \<open>JavaScript numbers\<close>

text \<open>
  Every quantity of the dashboard is a JavaScript \<open>number\<close>. The analytics code
  divides by counts that may be zero, and in JavaScript such a division does not fail: it
  yields \<open>Infinity\<close>, \<open>-Infinity\<close> or \<open>NaN\<close>, which then flow through \<open>Math.min\<close>,
  \<open>Math.max\<close> and the comparisons. The model therefore keeps the three special values
  apart from the finite numbers. Finite numbers are taken as reals: rounding to 53 bits,
  overflow of finite results and the sign of zero are not modelled (a zero divisor is
  taken as \<open>+0\<close>).
\<close>

datatype number = Num real | Infinity | NegInfinity | NaN

fun js_neg :: "number \<Rightarrow> number" where
  "js_neg (Num a) = Num (- a)"
| "js_neg Infinity = NegInfinity"
| "js_neg NegInfinity = Infinity"
| "js_neg NaN = NaN"

fun js_add :: "number \<Rightarrow> number \<Rightarrow> number" where
  "js_add (Num a) (Num b) = Num (a + b)"
| "js_add NaN _ = NaN"
| "js_add _ NaN = NaN"
| "js_add Infinity NegInfinity = NaN"
| "js_add NegInfinity Infinity = NaN"
| "js_add Infinity _ = Infinity"
| "js_add _ Infinity = Infinity"
| "js_add NegInfinity _ = NegInfinity"
| "js_add _ NegInfinity = NegInfinity"

definition js_sub :: "number \<Rightarrow> number \<Rightarrow> number" where
  "js_sub a b = js_add a (js_neg b)"

text \<open>The product of an infinity with a finite factor: \<open>Infinity * 0\<close> is \<open>NaN\<close>.\<close>

definition inf_times :: "bool \<Rightarrow> real \<Rightarrow> number" where
  "inf_times positive b =
     (if b = 0 then NaN
      else if (0 < b) = positive then Infinity else NegInfinity)"

fun js_mul :: "number \<Rightarrow> number \<Rightarrow> number" where
  "js_mul (Num a) (Num b) = Num (a * b)"
| "js_mul NaN _ = NaN"
| "js_mul _ NaN = NaN"
| "js_mul Infinity (Num b) = inf_times True b"
| "js_mul NegInfinity (Num b) = inf_times False b"
| "js_mul (Num a) Infinity = inf_times True a"
| "js_mul (Num a) NegInfinity = inf_times False a"
| "js_mul Infinity Infinity = Infinity"
| "js_mul NegInfinity NegInfinity = Infinity"
| "js_mul Infinity NegInfinity = NegInfinity"
| "js_mul NegInfinity Infinity = NegInfinity"

text \<open>
  Division. A finite dividend over zero gives an infinity of the dividend's sign, and
  \<open>0 / 0\<close> gives \<open>NaN\<close>; nothing is raised.
\<close>

fun js_div :: "number \<Rightarrow> number \<Rightarrow> number" where
  "js_div (Num a) (Num b) =
     (if b = 0 then (if a = 0 then NaN else if 0 < a then Infinity else NegInfinity)
      else Num (a / b))"
| "js_div NaN _ = NaN"
| "js_div _ NaN = NaN"
| "js_div (Num a) Infinity = Num 0"
| "js_div (Num a) NegInfinity = Num 0"
| "js_div Infinity (Num b) = (if 0 \<le> b then Infinity else NegInfinity)"
| "js_div NegInfinity (Num b) = (if 0 \<le> b then NegInfinity else Infinity)"
| "js_div Infinity _ = NaN"
| "js_div NegInfinity _ = NaN"

text \<open>Comparisons: every comparison with \<open>NaN\<close> is false.\<close>

fun js_lt :: "number \<Rightarrow> number \<Rightarrow> bool" where
  "js_lt (Num a) (Num b) = (a < b)"
| "js_lt NaN _ = False"
| "js_lt _ NaN = False"
| "js_lt Infinity _ = False"
| "js_lt _ NegInfinity = False"
| "js_lt _ Infinity = True"
| "js_lt NegInfinity _ = True"

definition js_gt :: "number \<Rightarrow> number \<Rightarrow> bool" where
  "js_gt a b = js_lt b a"

definition js_eq :: "number \<Rightarrow> number \<Rightarrow> bool" where
  "js_eq a b = (a \<noteq> NaN \<and> a = b)"

definition js_le :: "number \<Rightarrow> number \<Rightarrow> bool" where
  "js_le a b = (js_lt a b \<or> js_eq a b)"

definition js_ge :: "number \<Rightarrow> number \<Rightarrow> bool" where
  "js_ge a b = js_le b a"

text \<open>\<open>Math.min\<close> and \<open>Math.max\<close> of two arguments return \<open>NaN\<close> when either is.\<close>

definition Math_min :: "number \<Rightarrow> number \<Rightarrow> number" where
  "Math_min a b = (if a = NaN \<or> b = NaN then NaN else if js_lt b a then b else a)"

definition Math_max :: "number \<Rightarrow> number \<Rightarrow> number" where
  "Math_max a b = (if a = NaN \<or> b = NaN then NaN else if js_lt a b then b else a)"

fun Math_abs :: "number \<Rightarrow> number" where
  "Math_abs (Num a) = Num \<bar>a\<bar>"
| "Math_abs Infinity = Infinity"
| "Math_abs NegInfinity = Infinity"
| "Math_abs NaN = NaN"

fun Math_sqrt :: "number \<Rightarrow> number" where
  "Math_sqrt (Num a) = (if a < 0 then NaN else Num (sqrt a))"
| "Math_sqrt Infinity = Infinity"
| "Math_sqrt NegInfinity = NaN"
| "Math_sqrt NaN = NaN"

text \<open>\<open>Math.round\<close> rounds half up: \<open>Math.round(2.5) = 3\<close>, \<open>Math.round(-2.5) = -2\<close>.\<close>

fun Math_round :: "number \<Rightarrow> number" where
  "Math_round (Num a) = Num (of_int \<lfloor>a + 1 / 2\<rfloor>)"
| "Math_round x = x"

text \<open>\<open>Math.pow(x, n)\<close> for the natural exponents the code uses (only \<open>2\<close>).\<close>

fun Math_pow :: "number \<Rightarrow> nat \<Rightarrow> number" where
  "Math_pow x 0 = Num 1"
| "Math_pow x (Suc n) = js_mul x (Math_pow x n)"

text \<open>The length of an array, as a number.\<close>

definition len :: "'a list \<Rightarrow> number" where
  "len xs = Num (real (length xs))"

text \<open>\<open>values.reduce((sum, val) => sum + val, 0)\<close>.\<close>

definition sum_reduce :: "number list \<Rightarrow> number" where
  "sum_reduce values = foldl js_add (Num 0) values"

text \<open>
  \<open>xs.slice(-n)\<close>: the last \<open>n\<close> elements, all of them when there are fewer.
  \<open>xs.slice(a, b)\<close> with \<open>0 \<le> a\<close>: the elements at the indices from \<open>a\<close> up to but
  excluding \<open>b\<close>.
\<close>

definition slice_last :: "nat \<Rightarrow> 'a list \<Rightarrow> 'a list" where
  "slice_last n xs = drop (length xs - n) xs"

definition slice :: "nat \<Rightarrow> nat \<Rightarrow> 'a list \<Rightarrow> 'a list" where
  "slice a b xs = drop a (take b xs)"

section \<open>The player record\<close>

text \<open>
  The \<open>Player\<close> interface is declared in \<open>@/data/players\<close>; the fields below are
  the ones the analytics and the data service read or write. The role is kept as a
  string, since \<open>validatePlayer\<close> checks at run time that it is one of the four roles.
  The image is optional. The fields \<open>id\<close> and \<open>image\<close> are called \<open>player_id\<close> and
  \<open>player_image\<close> here.
\<close>

record Player =
  player_id :: string
  name :: string
  role :: string
  player_image :: "string option"
  battingAverage :: number
  strikeRate :: number
  totalRuns :: number
  wickets :: number
  bowlingEconomy :: number
  matchesPlayed :: number
  runsPerMatch :: "number list"
  wicketsPerMatch :: "number list"
  fours :: number
  sixes :: number
  fieldingRating :: number
  fitnessScore :: number
  catches :: number

section \<open>Finite numbers\<close>

text \<open>
  A number is finite when it is neither \<open>NaN\<close> nor an infinity; a player is finite when
  all the numbers of the record are.
\<close>

fun is_finite :: "number \<Rightarrow> bool" where
  "is_finite (Num a) = True"
| "is_finite x = False"

definition finite_player :: "Player \<Rightarrow> bool" where
  "finite_player p =
     (is_finite (battingAverage p) \<and> is_finite (strikeRate p) \<and> is_finite (totalRuns p) \<and>
      is_finite (wickets p) \<and> is_finite (bowlingEconomy p) \<and> is_finite (matchesPlayed p) \<and>
      list_all is_finite (runsPerMatch p) \<and> list_all is_finite (wicketsPerMatch p) \<and>
      is_finite (fours p) \<and> is_finite (sixes p) \<and> is_finite (fieldingRating p) \<and>
      is_finite (fitnessScore p) \<and> is_finite (catches p))"

section \<open>Statistical functions (statsUtils)\<close>

definition calculateMean :: "number list \<Rightarrow> number" where
  "calculateMean values =
     (if length values = 0 then Num 0
      else js_div (sum_reduce values) (len values))"

definition calculateStandardDeviation :: "number list \<Rightarrow> number" where
  "calculateStandardDeviation values =
     (if length values = 0 then Num 0
      else let mean = calculateMean values;
               squaredDiffs = map (\<lambda>val. Math_pow (js_sub val mean) 2) values
           in Math_sqrt (calculateMean squaredDiffs))"

definition calculateVariance :: "number list \<Rightarrow> number" where
  "calculateVariance values =
     (if length values = 0 then Num 0
      else let mean = calculateMean values
           in calculateMean (map (\<lambda>val. Math_pow (js_sub val mean) 2) values))"

definition calculateZScore :: "number \<Rightarrow> number \<Rightarrow> number \<Rightarrow> number" where
  "calculateZScore v mean stdDev =
     (if js_eq stdDev (Num 0) then Num 0 else js_div (js_sub v mean) stdDev)"

definition normalizeValue :: "number \<Rightarrow> number \<Rightarrow> number \<Rightarrow> number" where
  "normalizeValue v mn mx =
     (if js_eq mx mn then Num 0 else js_div (js_sub v mn) (js_sub mx mn))"

definition clamp :: "number \<Rightarrow> number \<Rightarrow> number \<Rightarrow> number" where
  "clamp v mn mx = Math_min (Math_max v mn) mx"

section \<open>Cricket-specific calculations (statsUtils)\<close>

definition calculateConsistencyScore :: "number list \<Rightarrow> number" where
  "calculateConsistencyScore values =
     (if length values < 2 then Num 50
      else let mean = calculateMean values in
        if js_eq mean (Num 0) then Num 50
        else let stdDev = calculateStandardDeviation values;
                 coefficientOfVariation = js_mul (js_div stdDev mean) (Num 100)
             in clamp (js_sub (Num 100) coefficientOfVariation) (Num 0) (Num 100))"

definition calculateBattingIndex :: "Player \<Rightarrow> number" where
  "calculateBattingIndex player =
     (let avgWeight = Num 0.4;
          srWeight = Num 0.3;
          consistencyWeight = Num 0.2;
          experienceWeight = Num 0.1;
          avgScore = js_mul (Math_min (js_div (battingAverage player) (Num 60)) (Num 1)) (Num 100);
          srScore = js_mul (Math_min (js_div (strikeRate player) (Num 180)) (Num 1)) (Num 100);
          consistency = calculateConsistencyScore (runsPerMatch player);
          experience = js_mul (Math_min (js_div (matchesPlayed player) (Num 200)) (Num 1)) (Num 100)
      in js_add (js_add (js_add (js_mul avgScore avgWeight) (js_mul srScore srWeight))
                        (js_mul consistency consistencyWeight))
                (js_mul experience experienceWeight))"

definition calculateBowlingIndex :: "Player \<Rightarrow> number" where
  "calculateBowlingIndex player =
     (if js_eq (wickets player) (Num 0) then Num 0
      else let economyWeight = Num 0.35;
               wicketsWeight = Num 0.35;
               consistencyWeight = Num 0.2;
               experienceWeight = Num 0.1;
               economyScore =
                 js_mul (Math_max (Num 0)
                   (js_div (js_sub (Num 10) (bowlingEconomy player)) (Num 10))) (Num 100);
               wicketsScore =
                 Math_min (js_mul (js_div (wickets player) (matchesPlayed player)) (Num 20))
                   (Num 100);
               consistency = calculateConsistencyScore (wicketsPerMatch player);
               experience =
                 js_mul (Math_min (js_div (matchesPlayed player) (Num 150)) (Num 1)) (Num 100)
           in js_add (js_add (js_add (js_mul economyScore economyWeight)
                                     (js_mul wicketsScore wicketsWeight))
                             (js_mul consistency consistencyWeight))
                     (js_mul experience experienceWeight))"

definition calculateStrikeRotation :: "Player \<Rightarrow> number" where
  "calculateStrikeRotation player =
     (let boundaryRuns =
            js_add (js_mul (fours player) (Num 4)) (js_mul (sixes player) (Num 6));
          nonBoundaryRuns = js_sub (totalRuns player) boundaryRuns
      in if js_eq (totalRuns player) (Num 0) then Num 0
         else js_mul (js_div nonBoundaryRuns (totalRuns player)) (Num 100))"

definition calculateBoundaryPercentage :: "Player \<Rightarrow> number" where
  "calculateBoundaryPercentage player =
     (if js_eq (totalRuns player) (Num 0) then Num 0
      else let boundaryRuns =
                 js_add (js_mul (fours player) (Num 4)) (js_mul (sixes player) (Num 6))
           in js_mul (js_div boundaryRuns (totalRuns player)) (Num 100))"

definition calculateSixToFourRatio :: "Player \<Rightarrow> number" where
  "calculateSixToFourRatio player =
     (if js_eq (fours player) (Num 0)
      then (if js_gt (sixes player) (Num 0) then Infinity else Num 0)
      else js_div (sixes player) (fours player))"

definition calculateRunsPerMatch :: "Player \<Rightarrow> number" where
  "calculateRunsPerMatch player =
     (if js_eq (matchesPlayed player) (Num 0) then Num 0
      else js_div (totalRuns player) (matchesPlayed player))"

definition calculateWicketsPerMatch :: "Player \<Rightarrow> number" where
  "calculateWicketsPerMatch player =
     (if js_eq (matchesPlayed player) (Num 0) then Num 0
      else js_div (wickets player) (matchesPlayed player))"

section \<open>Form and trend analysis (statsUtils)\<close>

datatype trend = Up | Down | Stable

definition calculateTrendDirection :: "number list \<Rightarrow> trend" where
  "calculateTrendDirection values =
     (if length values < 4 then Stable
      else let firstHalf = slice 0 (length values div 2) values;
               secondHalf = drop (length values div 2) values;
               firstAvg = calculateMean firstHalf;
               secondAvg = calculateMean secondHalf;
               change = (if js_gt firstAvg (Num 0)
                         then js_mul (js_div (js_sub secondAvg firstAvg) firstAvg) (Num 100)
                         else Num 0)
           in if js_gt change (Num 10) then Up
              else if js_lt change (Num (- 10)) then Down
              else Stable)"

text \<open>
  The loop of \<open>calculateExponentialMovingAverage\<close>: \<open>i\<close> is the loop counter and
  \<open>result\<close> the array built so far, to which each round pushes one element.
\<close>

function ema_loop :: "number \<Rightarrow> number list \<Rightarrow> nat \<Rightarrow> number list \<Rightarrow> number list" where
  "ema_loop alpha values i result =
     (if i < length values
      then ema_loop alpha values (i + 1)
             (result @ [js_add (js_mul alpha (values ! i))
                               (js_mul (js_sub (Num 1) alpha) (result ! (i - 1)))])
      else result)"
  by pat_completeness auto
termination
  by (relation "measure (\<lambda>(alpha, values, i, result). length values - i)") auto

declare ema_loop.simps [simp del]

definition calculateExponentialMovingAverage :: "number list \<Rightarrow> number \<Rightarrow> number list" where
  "calculateExponentialMovingAverage values alpha =
     (if length values = 0 then []
      else ema_loop alpha values 1 [values ! 0])"

definition predictNextValue :: "number list \<Rightarrow> number" where
  "predictNextValue values =
     (if length values = 0 then Num 0
      else if length values = 1 then values ! 0
      else let ema = calculateExponentialMovingAverage values (Num 0.4);
               lastEma = ema ! (length ema - 1);
               trend = calculateTrendDirection values;
               trendMultiplier =
                 (if trend = Up then Num 1.05 else if trend = Down then Num 0.95 else Num 1)
           in js_mul lastEma trendMultiplier)"

section \<open>Comparison utilities (statsUtils)\<close>

datatype comparison = Higher | Lower | Equal

definition compareValues :: "number \<Rightarrow> number \<Rightarrow> comparison" where
  "compareValues a b =
     (if js_lt (Math_abs (js_sub a b)) (Num 0.01) then Equal
      else if js_gt a b then Higher else Lower)"

definition calculatePercentageDifference :: "number \<Rightarrow> number \<Rightarrow> number" where
  "calculatePercentageDifference a b =
     (if js_eq b (Num 0) then (if js_gt a (Num 0) then Num 100 else Num 0)
      else js_mul (js_div (js_sub a b) b) (Num 100))"

section \<open>The analytics engine\<close>

text \<open>
  An \<open>AnalyticsEngine\<close> holds one field, the roster \<open>players\<close>; its methods are
  modelled as functions of that roster.
\<close>

text \<open>\<open>players.reduce((sum, p) => sum + f(p), 0)\<close>.\<close>

definition sum_by :: "('a \<Rightarrow> number) \<Rightarrow> 'a list \<Rightarrow> number" where
  "sum_by f players = foldl (\<lambda>sum p. js_add sum (f p)) (Num 0) players"

definition calculateBattingRating :: "Player \<Rightarrow> number" where
  "calculateBattingRating player =
     (let avgScore = Math_min (js_mul (battingAverage player) (Num 1.5)) (Num 100);
          srScore = Math_min (js_div (strikeRate player) (Num 2)) (Num 50);
          boundaryScore =
            js_mul (js_div (js_add (fours player) (js_mul (sixes player) (Num 1.5)))
                           (matchesPlayed player)) (Num 2)
      in Math_min (js_add (js_add (js_mul avgScore (Num 0.5)) (js_mul srScore (Num 0.3)))
                          (js_mul boundaryScore (Num 0.2))) (Num 100))"

definition calculateBowlingRating :: "Player \<Rightarrow> number" where
  "calculateBowlingRating player =
     (if js_eq (wickets player) (Num 0) then Num 0
      else let economyScore =
                 Math_max (js_sub (Num 100) (js_mul (bowlingEconomy player) (Num 10))) (Num 0);
               wicketRate = js_mul (js_div (wickets player) (matchesPlayed player)) (Num 25)
           in Math_min (js_add (js_mul economyScore (Num 0.5)) (js_mul wicketRate (Num 0.5)))
                (Num 100))"

text \<open>
  \<open>calculateConsistency\<close>, \<open>calculateImpactScore\<close>, \<open>calculateRecentImprovement\<close>
  and \<open>calculatePotential\<close> of the engine. In \<open>calculateImpactScore\<close> the divisor
  \<open>runs.length || 1\<close> is the length, or 1 when the length is zero.
\<close>

definition calculateConsistency :: "Player \<Rightarrow> number" where
  "calculateConsistency player =
     (let runs = runsPerMatch player in
      if length runs = 0 then Num 50
      else let mean = js_div (sum_reduce runs) (len runs);
               variance = js_div (sum_by (\<lambda>val. Math_pow (js_sub val mean) 2) runs) (len runs);
               stdDev = Math_sqrt variance;
               cv = (if js_gt mean (Num 0) then js_mul (js_div stdDev mean) (Num 100)
                     else Num 100)
           in Math_max (js_sub (Num 100) cv) (Num 0))"

definition calculateImpactScore :: "Player \<Rightarrow> number" where
  "calculateImpactScore player =
     (let runs = runsPerMatch player;
          highImpactMatches = len (filter (\<lambda>r. js_ge r (Num 50)) runs);
          matchWinningPotential = len (filter (\<lambda>r. js_ge r (Num 75)) runs);
          wkts = wicketsPerMatch player;
          impactfulBowling = len (filter (\<lambda>w. js_ge w (Num 3)) wkts);
          impactRatio =
            js_div (js_add (js_add (js_mul highImpactMatches (Num 2))
                                   (js_mul matchWinningPotential (Num 3)))
                           (js_mul impactfulBowling (Num 2)))
                   (if length runs = 0 then Num 1 else len runs)
      in Math_min (js_mul impactRatio (Num 20)) (Num 100))"

definition calculateRecentImprovement :: "Player \<Rightarrow> number" where
  "calculateRecentImprovement player =
     (let runs = runsPerMatch player in
      if length runs < 6 then Num 0
      else let firstHalf = slice 0 (length runs div 2) runs;
               secondHalf = drop (length runs div 2) runs;
               firstAvg = js_div (sum_reduce firstHalf) (len firstHalf);
               secondAvg = js_div (sum_reduce secondHalf) (len secondHalf)
           in if js_gt firstAvg (Num 0)
              then js_mul (js_div (js_sub secondAvg firstAvg) firstAvg) (Num 50)
              else Num 0)"

definition calculatePotential :: "Player \<Rightarrow> number" where
  "calculatePotential player =
     (let recentImprovement = calculateRecentImprovement player;
          fitnessBonus = (if js_gt (fitnessScore player) (Num 85) then Num 10 else Num 0);
          experienceFactor =
            js_mul (Math_min (js_div (matchesPlayed player) (Num 200)) (Num 1)) (Num 20)
      in Math_min (js_sub (js_add (js_add (Num 70) recentImprovement) fitnessBonus)
                     experienceFactor) (Num 100))"

definition calculateBattingDepth :: "Player list \<Rightarrow> number" where
  "calculateBattingDepth players =
     (let battingPlayers = filter (\<lambda>p. js_gt (battingAverage p) (Num 20)) players;
          avgBattingAverage = js_div (sum_by battingAverage battingPlayers) (len battingPlayers);
          depthScore = js_mul (js_div (len battingPlayers) (Num 7)) (Num 50);
          qualityScore = Math_min (js_mul avgBattingAverage (Num 1.5)) (Num 50)
      in js_add depthScore qualityScore)"

definition calculateBowlingStrength :: "Player list \<Rightarrow> number" where
  "calculateBowlingStrength players =
     (let bowlingPlayers = filter (\<lambda>p. js_gt (wickets p) (Num 10)) players;
          avgEconomy = (if 0 < length bowlingPlayers
                        then js_div (sum_by bowlingEconomy bowlingPlayers) (len bowlingPlayers)
                        else Num 10);
          varietyScore = js_mul (js_div (len bowlingPlayers) (Num 5)) (Num 40);
          economyScore = Math_max (js_sub (Num 60) (js_mul avgEconomy (Num 6))) (Num 0)
      in js_add varietyScore economyScore)"

definition calculateFieldingEfficiency :: "Player list \<Rightarrow> number" where
  "calculateFieldingEfficiency players =
     (let avgFielding = js_div (sum_by fieldingRating players) (len players);
          catchRate = js_div (js_div (sum_by catches players) (len players)) (Num 10)
      in Math_min (js_add (js_mul avgFielding (Num 0.7)) (js_mul catchRate (Num 30))) (Num 100))"

definition count_role :: "string \<Rightarrow> Player list \<Rightarrow> nat" where
  "count_role r players = length (filter (\<lambda>p. role p = r) players)"

definition calculateTeamBalance :: "Player list \<Rightarrow> number" where
  "calculateTeamBalance players =
     (let Batsman = count_role ''Batsman'' players;
          Bowler = count_role ''Bowler'' players;
          AllRounder = count_role ''All-Rounder'' players;
          WicketKeeper = count_role ''Wicket-Keeper'' players;
          score0 = (100 :: real);
          score1 = (if Batsman < 3 \<or> 6 < Batsman then score0 - 20 else score0);
          score2 = (if Bowler < 3 \<or> 6 < Bowler then score1 - 20 else score1);
          score3 = (if AllRounder < 1 \<or> 4 < AllRounder then score2 - 15 else score2);
          score4 = (if WicketKeeper < 1 \<or> 2 < WicketKeeper then score3 - 10 else score3)
      in Math_max (Num score4) (Num 0))"

text \<open>\<open>Math.round(x * 10) / 10\<close>, the rounding to one decimal of the reports.\<close>

definition round1 :: "number \<Rightarrow> number" where
  "round1 x = js_div (Math_round (js_mul x (Num 10))) (Num 10)"

text \<open>
  The numeric fields of \<open>TeamAnalytics\<close> and of \<open>MatchPrediction\<close>. The lists of
  advice texts and of key players that the two reports also carry (\<open>weaknesses\<close>,
  \<open>strengths\<close>, \<open>keyPlayers\<close>, \<open>riskFactors\<close>, \<open>recommendations\<close>) do not enter any
  number and are left out.
\<close>

record TeamAnalytics =
  teamStrength :: number
  battingDepth :: number
  bowlingStrength :: number
  fieldingEfficiency :: number
  balanceScore :: number

definition analyzeTeam :: "Player list \<Rightarrow> TeamAnalytics" where
  "analyzeTeam players =
     (let battingDepth = calculateBattingDepth players;
          bowlingStrength = calculateBowlingStrength players;
          fieldingEfficiency = calculateFieldingEfficiency players;
          balanceScore = calculateTeamBalance players;
          teamStrength =
            js_div (js_add (js_add (js_add battingDepth bowlingStrength) fieldingEfficiency)
                      balanceScore) (Num 4)
      in \<lparr> teamStrength = round1 teamStrength,
           battingDepth = round1 battingDepth,
           bowlingStrength = round1 bowlingStrength,
           fieldingEfficiency = round1 fieldingEfficiency,
           balanceScore = round1 balanceScore \<rparr>)"

record MatchPrediction =
  winProbability :: number
  expectedRuns :: number
  expectedWickets :: number

text \<open>
  \<open>simulateMatch(opponentStrength = 75)\<close>: an argument left out (\<open>None\<close>) takes the
  default 75.
\<close>

definition simulateMatch :: "Player list \<Rightarrow> number option \<Rightarrow> MatchPrediction" where
  "simulateMatch players opponentStrengthArg =
     (let opponentStrength = (case opponentStrengthArg of None \<Rightarrow> Num 75 | Some v \<Rightarrow> v);
          teamAnalytics = analyzeTeam players;
          strengthDiff = js_sub (teamStrength teamAnalytics) opponentStrength;
          winProbability =
            Math_min (Math_max (js_add (Num 50) (js_mul strengthDiff (Num 0.5))) (Num 10))
              (Num 90);
          avgTeamRuns =
            sum_by (\<lambda>p. js_div (sum_reduce (runsPerMatch p)) (len (runsPerMatch p))) players;
          avgTeamWickets =
            sum_by (\<lambda>p. js_div (sum_reduce (wicketsPerMatch p)) (len (wicketsPerMatch p)))
              players
      in \<lparr> winProbability = Math_round winProbability,
           expectedRuns = Math_round avgTeamRuns,
           expectedWickets = Math_round avgTeamWickets \<rparr>)"

section \<open>The data service\<close>

text \<open>
  The data service keeps the roster, the settings and a history log in the browser's
  \<open>localStorage\<close>, and a cache of the roster in memory with a time stamp. The model
  holds what the stored texts encode (the roster under \<open>athleteEdge_players\<close>, the
  settings under \<open>athleteEdge_settings\<close>, the log under \<open>athleteEdge_history\<close>).
  Writing a value to the store with \<open>JSON.stringify\<close> and reading it with
  \<open>JSON.parse\<close> gives the value back when its numbers are finite; \<open>NaN\<close> and the
  infinities are written as \<open>null\<close>, which is no number of the model, so a stored roster
  of the model stands for a stored text only when its numbers are finite. The text that
  \<open>exportData\<close> returns is modelled with its JSON numbers, \<open>null\<close> included.
  \<open>localStorage\<close> is taken not to fail, so that of all the \<open>catch\<close> branches only the
  one of \<open>importData\<close> can be reached. The cache is a map, but only the roster's key is
  ever used. Operations run one after the other; each takes the state of the browser and
  returns its response with the new state.

  The clock and the random generator are part of the state: \<open>clock n\<close> is what the
  \<open>n\<close>-th reading of the time returns, \<open>random n\<close> the text that the \<open>n\<close>-th call of
  \<open>Math.random().toString(36).substr(2, 9)\<close> yields.
\<close>

record AppSettings =
  theme :: string
  autoSave :: bool
  analyticsRefreshRate :: number
  showPredictions :: bool
  defaultView :: string

record HistoryEntry =
  entry_id :: string
  timestamp :: nat
  action :: string
  playerId :: string
  playerName :: string
  details :: string

record Browser =
  ls_players :: "Player list option"
  ls_settings :: "AppSettings option"
  ls_history :: "HistoryEntry list option"
  cache_players :: "(Player list \<times> nat) option"
  clock :: "nat \<Rightarrow> nat"
  clock_reads :: nat
  random :: "nat \<Rightarrow> string"
  random_draws :: nat

text \<open>\<open>DataServiceResponse<T>\<close>: success with the data, or failure with the error text.\<close>

datatype 'a Response = Success 'a | Failure string

text \<open>
  \<open>Partial<Player>\<close>: any field may be absent (\<open>undefined\<close>). \<open>spread p u\<close> is
  \<open>{ ...p, ...u }\<close>, and \<open>as_partial p\<close> is a complete player seen as a partial one.
\<close>

record PartialPlayer =
  opt_id :: "string option"
  opt_name :: "string option"
  opt_role :: "string option"
  opt_image :: "string option"
  opt_battingAverage :: "number option"
  opt_strikeRate :: "number option"
  opt_totalRuns :: "number option"
  opt_wickets :: "number option"
  opt_bowlingEconomy :: "number option"
  opt_matchesPlayed :: "number option"
  opt_runsPerMatch :: "number list option"
  opt_wicketsPerMatch :: "number list option"
  opt_fours :: "number option"
  opt_sixes :: "number option"
  opt_fieldingRating :: "number option"
  opt_fitnessScore :: "number option"
  opt_catches :: "number option"

definition no_fields :: PartialPlayer where
  "no_fields = \<lparr> opt_id = None, opt_name = None, opt_role = None, opt_image = None,
     opt_battingAverage = None, opt_strikeRate = None, opt_totalRuns = None,
     opt_wickets = None, opt_bowlingEconomy = None, opt_matchesPlayed = None,
     opt_runsPerMatch = None, opt_wicketsPerMatch = None, opt_fours = None,
     opt_sixes = None, opt_fieldingRating = None, opt_fitnessScore = None,
     opt_catches = None \<rparr>"

definition as_partial :: "Player \<Rightarrow> PartialPlayer" where
  "as_partial p = \<lparr> opt_id = Some (player_id p), opt_name = Some (name p),
     opt_role = Some (role p), opt_image = player_image p,
     opt_battingAverage = Some (battingAverage p), opt_strikeRate = Some (strikeRate p),
     opt_totalRuns = Some (totalRuns p), opt_wickets = Some (wickets p),
     opt_bowlingEconomy = Some (bowlingEconomy p),
     opt_matchesPlayed = Some (matchesPlayed p),
     opt_runsPerMatch = Some (runsPerMatch p),
     opt_wicketsPerMatch = Some (wicketsPerMatch p), opt_fours = Some (fours p),
     opt_sixes = Some (sixes p), opt_fieldingRating = Some (fieldingRating p),
     opt_fitnessScore = Some (fitnessScore p), opt_catches = Some (catches p) \<rparr>"

definition or_else :: "'a option \<Rightarrow> 'a \<Rightarrow> 'a" where
  "or_else u v = (case u of None \<Rightarrow> v | Some w \<Rightarrow> w)"

definition spread :: "Player \<Rightarrow> PartialPlayer \<Rightarrow> Player" where
  "spread p u = \<lparr> player_id = or_else (opt_id u) (player_id p),
     name = or_else (opt_name u) (name p),
     role = or_else (opt_role u) (role p),
     player_image = (case opt_image u of None \<Rightarrow> player_image p | Some i \<Rightarrow> Some i),
     battingAverage = or_else (opt_battingAverage u) (battingAverage p),
     strikeRate = or_else (opt_strikeRate u) (strikeRate p),
     totalRuns = or_else (opt_totalRuns u) (totalRuns p),
     wickets = or_else (opt_wickets u) (wickets p),
     bowlingEconomy = or_else (opt_bowlingEconomy u) (bowlingEconomy p),
     matchesPlayed = or_else (opt_matchesPlayed u) (matchesPlayed p),
     runsPerMatch = or_else (opt_runsPerMatch u) (runsPerMatch p),
     wicketsPerMatch = or_else (opt_wicketsPerMatch u) (wicketsPerMatch p),
     fours = or_else (opt_fours u) (fours p),
     sixes = or_else (opt_sixes u) (sixes p),
     fieldingRating = or_else (opt_fieldingRating u) (fieldingRating p),
     fitnessScore = or_else (opt_fitnessScore u) (fitnessScore p),
     catches = or_else (opt_catches u) (catches p) \<rparr>"

subsection \<open>Validation\<close>

text \<open>
  \<open>name.trim()\<close> removes the white space at both ends; strings are lists of ASCII
  characters here.
\<close>

definition is_space :: "char \<Rightarrow> bool" where
  "is_space c = (c \<in> {CHR '' '', CHR 0x09, CHR 0x0A, CHR 0x0B, CHR 0x0C, CHR 0x0D})"

definition trim :: "string \<Rightarrow> string" where
  "trim t = rev (dropWhile is_space (rev (dropWhile is_space t)))"

text \<open>A range check of \<open>validatePlayer\<close>: \<open>x !== undefined && (x < 0 || x > hi)\<close>.\<close>

definition out_of_range :: "number option \<Rightarrow> real \<Rightarrow> bool" where
  "out_of_range x hi =
     (case x of None \<Rightarrow> False | Some v \<Rightarrow> js_lt v (Num 0) \<or> js_gt v (Num hi))"

definition validatePlayer :: "PartialPlayer \<Rightarrow> unit Response" where
  "validatePlayer player =
     (if (case opt_name player of None \<Rightarrow> True
          | Some n \<Rightarrow> n = [] \<or> length (trim n) < 2)
      then Failure ''Player name must be at least 2 characters''
      else if (case opt_role player of None \<Rightarrow> True
               | Some r \<Rightarrow> r = [] \<or>
                   r \<notin> set [''Batsman'', ''Bowler'', ''All-Rounder'', ''Wicket-Keeper''])
      then Failure ''Invalid player role''
      else if out_of_range (opt_battingAverage player) 100
      then Failure ''Batting average must be between 0 and 100''
      else if out_of_range (opt_strikeRate player) 300
      then Failure ''Strike rate must be between 0 and 300''
      else if out_of_range (opt_bowlingEconomy player) 20
      then Failure ''Bowling economy must be between 0 and 20''
      else if out_of_range (opt_fitnessScore player) 100
      then Failure ''Fitness score must be between 0 and 100''
      else Success ())"

subsection \<open>Clock, identifiers and cache\<close>

definition Date_now :: "Browser \<Rightarrow> nat \<times> Browser" where
  "Date_now s = (clock s (clock_reads s), s\<lparr>clock_reads := clock_reads s + 1\<rparr>)"

definition Math_random :: "Browser \<Rightarrow> string \<times> Browser" where
  "Math_random s = (random s (random_draws s), s\<lparr>random_draws := random_draws s + 1\<rparr>)"

fun show_nat :: "nat \<Rightarrow> string" where
  "show_nat n =
     (if n < 10 then [char_of (48 + n)]
      else show_nat (n div 10) @ [char_of (48 + n mod 10)])"

declare show_nat.simps [simp del]

definition generateId :: "Browser \<Rightarrow> string \<times> Browser" where
  "generateId s =
     (case Date_now s of (now, s1) \<Rightarrow>
        case Math_random s1 of (r, s2) \<Rightarrow> (show_nat now @ ''-'' @ r, s2))"

definition cacheExpiry :: nat where
  "cacheExpiry = 5 * 60 * 1000"

text \<open>
  \<open>getFromCache\<close>: the clock is read only when there is an entry; the entry counts
  while it is younger than the expiry.
\<close>

definition getFromCache :: "Browser \<Rightarrow> Player list option \<times> Browser" where
  "getFromCache s =
     (case cache_players s of
        None \<Rightarrow> (None, s)
      | Some (cached, stamp) \<Rightarrow>
          (case Date_now s of (now, s1) \<Rightarrow>
             if int now - int stamp < int cacheExpiry then (Some cached, s1)
             else (None, s1)))"

definition setCache :: "Player list \<Rightarrow> Browser \<Rightarrow> Browser" where
  "setCache players s =
     (case Date_now s of (now, s1) \<Rightarrow> s1\<lparr>cache_players := Some (players, now)\<rparr>)"

subsection \<open>Player operations\<close>

text \<open>
  \<open>initialPlayers\<close>, the roster the application ships with, is declared in
  \<open>@/data/players\<close>; the operations that read it take it as their first argument.
\<close>

definition syncPlayerImages :: "Player list \<Rightarrow> Player list \<Rightarrow> Player list" where
  "syncPlayerImages initialPlayers players =
     map (\<lambda>player.
        case find (\<lambda>p. player_id p = player_id player \<or> name p = name player)
               initialPlayers of
          None \<Rightarrow> player
        | Some initialPlayer \<Rightarrow>
            (case player_image initialPlayer of
               None \<Rightarrow> player
             | Some img \<Rightarrow> if img = [] then player else player\<lparr>player_image := Some img\<rparr>))
       players"

definition savePlayers :: "Player list \<Rightarrow> Browser \<Rightarrow> Browser" where
  "savePlayers players s = setCache players (s\<lparr>ls_players := Some players\<rparr>)"

definition getAllPlayers :: "Player list \<Rightarrow> Browser \<Rightarrow> Player list Response \<times> Browser" where
  "getAllPlayers initialPlayers s =
     (case getFromCache s of
        (Some cached, s1) \<Rightarrow> (Success (syncPlayerImages initialPlayers cached), s1)
      | (None, s1) \<Rightarrow>
          (case ls_players s1 of
             Some players \<Rightarrow>
               (let playersWithImages = syncPlayerImages initialPlayers players;
                    s2 = setCache playersWithImages s1
                in (Success playersWithImages, s2\<lparr>ls_players := Some playersWithImages\<rparr>))
           | None \<Rightarrow> (Success initialPlayers, savePlayers initialPlayers s1)))"

definition getPlayerById ::
  "Player list \<Rightarrow> string \<Rightarrow> Browser \<Rightarrow> Player Response \<times> Browser" where
  "getPlayerById initialPlayers pid s =
     (case getAllPlayers initialPlayers s of
        (Failure e, s1) \<Rightarrow> (Failure ''Failed to fetch players'', s1)
      | (Success data, s1) \<Rightarrow>
          (case find (\<lambda>p. player_id p = pid) data of
             None \<Rightarrow> (Failure ''Player not found'', s1)
           | Some player \<Rightarrow> (Success player, s1)))"

subsection \<open>Settings and history\<close>

definition saveSettings :: "AppSettings \<Rightarrow> Browser \<Rightarrow> Browser" where
  "saveSettings settings s = s\<lparr>ls_settings := Some settings\<rparr>"

definition defaultSettings :: AppSettings where
  "defaultSettings = \<lparr> theme = ''neon'', autoSave = True, analyticsRefreshRate = Num 30,
     showPredictions = True, defaultView = ''analytics'' \<rparr>"

definition getSettings :: "Browser \<Rightarrow> AppSettings Response \<times> Browser" where
  "getSettings s =
     (case ls_settings s of
        Some stored \<Rightarrow> (Success stored, s)
      | None \<Rightarrow> (Success defaultSettings, saveSettings defaultSettings s))"

text \<open>\<open>getHistory(limit)\<close>: a limit that is left out or zero keeps the whole log.\<close>

definition getHistory :: "nat option \<Rightarrow> Browser \<Rightarrow> HistoryEntry list Response" where
  "getHistory limit s =
     (case ls_history s of
        Some history \<Rightarrow>
          Success (case limit of
                     None \<Rightarrow> history
                   | Some n \<Rightarrow> if n = 0 then history else slice_last n history)
      | None \<Rightarrow> Success [])"

text \<open>
  \<open>addHistoryEntry\<close> takes the action, the player's id and name and the details, and
  appends an entry with a fresh id and the time, keeping the last hundred entries.
\<close>

definition addHistoryEntry ::
  "string \<Rightarrow> string \<Rightarrow> string \<Rightarrow> string \<Rightarrow> Browser \<Rightarrow> Browser" where
  "addHistoryEntry act pid pname det s =
     (let history = (case getHistory None s of Success h \<Rightarrow> h | Failure e \<Rightarrow> [])
      in case generateId s of (new_id, s1) \<Rightarrow>
         case Date_now s1 of (now, s2) \<Rightarrow>
           s2\<lparr>ls_history := Some (slice_last 99 history @
                [\<lparr> entry_id = new_id, timestamp = now, action = act, playerId = pid,
                   playerName = pname, details = det \<rparr>])\<rparr>)"

subsection \<open>Updating a player\<close>

fun findIndex :: "('a \<Rightarrow> bool) \<Rightarrow> 'a list \<Rightarrow> nat option" where
  "findIndex P [] = None"
| "findIndex P (x # xs) =
     (if P x then Some 0 else map_option Suc (findIndex P xs))"

definition updatePlayer ::
  "Player list \<Rightarrow> string \<Rightarrow> PartialPlayer \<Rightarrow> Browser \<Rightarrow> Player Response \<times> Browser" where
  "updatePlayer initialPlayers pid updates s =
     (case getAllPlayers initialPlayers s of
        (Failure e, s1) \<Rightarrow> (Failure ''Failed to fetch players'', s1)
      | (Success data, s1) \<Rightarrow>
          (case findIndex (\<lambda>p. player_id p = pid) data of
             None \<Rightarrow> (Failure ''Player not found'', s1)
           | Some playerIndex \<Rightarrow>
               (let updatedPlayer = spread (data ! playerIndex) updates
                in case validatePlayer (as_partial updatedPlayer) of
                     Failure e \<Rightarrow> (Failure e, s1)
                   | Success u \<Rightarrow>
                       (let updatedPlayers = data[playerIndex := updatedPlayer];
                            s2 = savePlayers updatedPlayers s1;
                            s3 = addHistoryEntry ''update'' pid (name updatedPlayer)
                                   ''Updated player stats'' s2
                        in (Success updatedPlayer, s3)))))"

definition recalculateBattingAverage :: "Player \<Rightarrow> number \<Rightarrow> number" where
  "recalculateBattingAverage player newRuns =
     (let total = js_add (totalRuns player) newRuns;
          matches = js_add (matchesPlayed player) (Num 1)
      in js_div (Math_round (js_mul (js_div total matches) (Num 100))) (Num 100))"

text \<open>\<open>updatePlayerStats(playerId, { runs, wickets })\<close>.\<close>

definition updatePlayerStats ::
  "Player list \<Rightarrow> string \<Rightarrow> number \<Rightarrow> number \<Rightarrow> Browser \<Rightarrow> Player Response \<times> Browser" where
  "updatePlayerStats initialPlayers pid runs wkts s =
     (case getPlayerById initialPlayers pid s of
        (Failure e, s1) \<Rightarrow> (Failure ''Player not found'', s1)
      | (Success player, s1) \<Rightarrow>
          (let updatedPlayer = no_fields
                 \<lparr> opt_totalRuns := Some (js_add (totalRuns player) runs),
                   opt_wickets := Some (js_add (wickets player) wkts),
                   opt_matchesPlayed := Some (js_add (matchesPlayed player) (Num 1)),
                   opt_runsPerMatch := Some (slice_last 9 (runsPerMatch player) @ [runs]),
                   opt_wicketsPerMatch :=
                     Some (slice_last 9 (wicketsPerMatch player) @ [wkts]),
                   opt_battingAverage := Some (recalculateBattingAverage player runs) \<rparr>
           in updatePlayer initialPlayers pid updatedPlayer s1))"

subsection \<open>Export and import\<close>

text \<open>
  \<open>exportData\<close> builds an object with the fields below and returns its JSON text; a
  field whose value is \<open>undefined\<close> is left out of the text.
\<close>

record ExportData =
  export_version :: "string option"
  export_date :: "nat option"
  export_players :: "Player list option"
  export_settings :: "AppSettings option"
  export_history :: "HistoryEntry list option"

text \<open>
  A text handed to \<open>importData\<close> is either an object in which any of the fields may
  be absent and whose players, where present, are a list of complete players (as
  \<open>savePlayers\<close> requires of its argument), or a text on which \<open>JSON.parse\<close> or the
  validation throws: a syntax error, the document \<open>null\<close>, players that cannot be
  iterated, a name that is not a string. All of the latter end in the \<open>catch\<close> branch
  of \<open>importData\<close>, before anything is saved, and are the one case \<open>Unparsable\<close>.
\<close>

datatype JsonText = Unparsable | Document ExportData

text \<open>
  The text that \<open>JSON.stringify\<close> writes. A finite number is written as it is;
  \<open>NaN\<close>, \<open>Infinity\<close> and \<open>-Infinity\<close> are written as \<open>null\<close>. Strings, booleans
  and the integer time stamps are written as they are.
\<close>

datatype json_number = JNumber real | JNull

fun JSON_number :: "number \<Rightarrow> json_number" where
  "JSON_number (Num a) = JNumber a"
| "JSON_number x = JNull"

record JsonPlayer =
  json_id :: string
  json_name :: string
  json_role :: string
  json_image :: "string option"
  json_battingAverage :: json_number
  json_strikeRate :: json_number
  json_totalRuns :: json_number
  json_wickets :: json_number
  json_bowlingEconomy :: json_number
  json_matchesPlayed :: json_number
  json_runsPerMatch :: "json_number list"
  json_wicketsPerMatch :: "json_number list"
  json_fours :: json_number
  json_sixes :: json_number
  json_fieldingRating :: json_number
  json_fitnessScore :: json_number
  json_catches :: json_number

definition JSON_player :: "Player \<Rightarrow> JsonPlayer" where
  "JSON_player p = \<lparr> json_id = player_id p, json_name = name p, json_role = role p,
     json_image = player_image p,
     json_battingAverage = JSON_number (battingAverage p),
     json_strikeRate = JSON_number (strikeRate p),
     json_totalRuns = JSON_number (totalRuns p),
     json_wickets = JSON_number (wickets p),
     json_bowlingEconomy = JSON_number (bowlingEconomy p),
     json_matchesPlayed = JSON_number (matchesPlayed p),
     json_runsPerMatch = map JSON_number (runsPerMatch p),
     json_wicketsPerMatch = map JSON_number (wicketsPerMatch p),
     json_fours = JSON_number (fours p),
     json_sixes = JSON_number (sixes p),
     json_fieldingRating = JSON_number (fieldingRating p),
     json_fitnessScore = JSON_number (fitnessScore p),
     json_catches = JSON_number (catches p) \<rparr>"

record JsonSettings =
  json_theme :: string
  json_autoSave :: bool
  json_analyticsRefreshRate :: json_number
  json_showPredictions :: bool
  json_defaultView :: string

definition JSON_settings :: "AppSettings \<Rightarrow> JsonSettings" where
  "JSON_settings st = \<lparr> json_theme = theme st, json_autoSave = autoSave st,
     json_analyticsRefreshRate = JSON_number (analyticsRefreshRate st),
     json_showPredictions = showPredictions st, json_defaultView = defaultView st \<rparr>"

record JsonExport =
  text_version :: "string option"
  text_exportDate :: "nat option"
  text_players :: "JsonPlayer list option"
  text_settings :: "JsonSettings option"
  text_history :: "HistoryEntry list option"

definition JSON_stringify :: "ExportData \<Rightarrow> JsonExport" where
  "JSON_stringify d = \<lparr> text_version = export_version d, text_exportDate = export_date d,
     text_players = map_option (map JSON_player) (export_players d),
     text_settings = map_option JSON_settings (export_settings d),
     text_history = export_history d \<rparr>"

text \<open>
  Reading a written text back as an input of \<open>importData\<close>. A number of the text is a
  number of the declared type; \<open>null\<close> is not, so a text in which a number of a player
  or of the settings is \<open>null\<close> is not among the texts that \<open>JsonText\<close> describes, and
  \<open>typed_parse\<close> gives \<open>None\<close> for it.
\<close>

fun typed_number :: "json_number \<Rightarrow> number option" where
  "typed_number (JNumber a) = Some (Num a)"
| "typed_number JNull = None"

definition typed_player :: "JsonPlayer \<Rightarrow> Player option" where
  "typed_player j =
     (case those (map typed_number
             [json_battingAverage j, json_strikeRate j, json_totalRuns j, json_wickets j,
              json_bowlingEconomy j, json_matchesPlayed j, json_fours j, json_sixes j,
              json_fieldingRating j, json_fitnessScore j, json_catches j]) of
        Some [ba, sr, tr, wk, be, mp, fo, sx, fr, fs, ca] \<Rightarrow>
          (case those (map typed_number (json_runsPerMatch j)) of
             None \<Rightarrow> None
           | Some rpm \<Rightarrow>
               (case those (map typed_number (json_wicketsPerMatch j)) of
                  None \<Rightarrow> None
                | Some wpm \<Rightarrow>
                    Some \<lparr> player_id = json_id j, name = json_name j, role = json_role j,
                      player_image = json_image j, battingAverage = ba, strikeRate = sr,
                      totalRuns = tr, wickets = wk, bowlingEconomy = be, matchesPlayed = mp,
                      runsPerMatch = rpm, wicketsPerMatch = wpm, fours = fo, sixes = sx,
                      fieldingRating = fr, fitnessScore = fs, catches = ca \<rparr>))
      | _ \<Rightarrow> None)"

definition typed_settings :: "JsonSettings \<Rightarrow> AppSettings option" where
  "typed_settings j =
     (case typed_number (json_analyticsRefreshRate j) of
        None \<Rightarrow> None
      | Some r \<Rightarrow> Some \<lparr> theme = json_theme j, autoSave = json_autoSave j,
                        analyticsRefreshRate = r, showPredictions = json_showPredictions j,
                        defaultView = json_defaultView j \<rparr>)"

definition typed_parse :: "JsonExport \<Rightarrow> JsonText option" where
  "typed_parse t =
     (case (case text_players t of
              None \<Rightarrow> Some None
            | Some js \<Rightarrow> map_option Some (those (map typed_player js))) of
        None \<Rightarrow> None
      | Some ps \<Rightarrow>
          (case (case text_settings t of
                   None \<Rightarrow> Some None
                 | Some js \<Rightarrow> map_option Some (typed_settings js)) of
             None \<Rightarrow> None
           | Some st \<Rightarrow>
               Some (Document \<lparr> export_version = text_version t,
                       export_date = text_exportDate t, export_players = ps,
                       export_settings = st, export_history = text_history t \<rparr>)))"

text \<open>The export date is the reading of the clock.\<close>

definition exportData :: "Player list \<Rightarrow> Browser \<Rightarrow> JsonExport Response \<times> Browser" where
  "exportData initialPlayers s =
     (case getAllPlayers initialPlayers s of (players, s1) \<Rightarrow>
      case getSettings s1 of (settings, s2) \<Rightarrow>
      case Date_now s2 of (now, s3) \<Rightarrow>
        (Success (JSON_stringify
           \<lparr> export_version = Some ''1.0'',
             export_date = Some now,
             export_players = (case players of Success d \<Rightarrow> Some d | Failure e \<Rightarrow> None),
             export_settings = (case settings of Success d \<Rightarrow> Some d | Failure e \<Rightarrow> None),
             export_history =
               (case getHistory None s2 of Success d \<Rightarrow> Some d | Failure e \<Rightarrow> None) \<rparr>),
         s3))"

text \<open>
  The loop of \<open>importData\<close> that validates the players in order and stops at the first
  one that fails, with its error.
\<close>

fun first_invalid :: "Player list \<Rightarrow> string option" where
  "first_invalid [] = None"
| "first_invalid (player # rest) =
     (case validatePlayer (as_partial player) of
        Failure e \<Rightarrow> Some e
      | Success u \<Rightarrow> first_invalid rest)"

definition importData :: "JsonText \<Rightarrow> Browser \<Rightarrow> unit Response \<times> Browser" where
  "importData jsonData s =
     (case jsonData of
        Unparsable \<Rightarrow> (Failure ''Failed to import data'', s)
      | Document data \<Rightarrow>
          (case (export_version data, export_players data) of
             (Some v, Some players) \<Rightarrow>
               if v = [] then (Failure ''Invalid data format'', s)
               else (case first_invalid players of
                       Some e \<Rightarrow> (Failure (''Invalid player data: '' @ e), s)
                     | None \<Rightarrow>
                         (let s1 = savePlayers players s
                          in (Success (),
                              case export_settings data of
                                Some settings \<Rightarrow> saveSettings settings s1
                              | None \<Rightarrow> s1)))
           | _ \<Rightarrow> (Failure ''Invalid data format'', s)))"

section \<open>Conditions on the state of the browser\<close>

text \<open>
  The cache agrees with the store when it is empty or holds the stored roster; every
  operation of the service that fills the cache writes the same roster to the store. The
  settings are finite when none are stored or the stored refresh rate is a finite number.
\<close>

definition cache_agrees :: "Browser \<Rightarrow> bool" where
  "cache_agrees s =
     (case cache_players s of None \<Rightarrow> True | Some (cached, stamp) \<Rightarrow> ls_players s = Some cached)"

definition finite_settings :: "Browser \<Rightarrow> bool" where
  "finite_settings s =
     (case ls_settings s of None \<Rightarrow> True | Some st \<Rightarrow> is_finite (analyticsRefreshRate st))"

section \<open>Example inputs\<close>

text \<open>Concrete players, browser states and import texts on which the functions are run below.\<close>

definition batter :: Player where
  "batter = \<lparr> player_id = ''p1'', name = ''Asha Rao'', role = ''Batsman'',
     player_image = None, battingAverage = Num 42, strikeRate = Num 130,
     totalRuns = Num 840, wickets = Num 0, bowlingEconomy = Num 0, matchesPlayed = Num 20,
     runsPerMatch = [Num 30, Num 54], wicketsPerMatch = [Num 0, Num 0], fours = Num 90,
     sixes = Num 20, fieldingRating = Num 70, fitnessScore = Num 80, catches = Num 8 \<rparr>"

text \<open>A player entered before the first match, with three wickets already recorded.\<close>

definition rookie :: Player where
  "rookie = \<lparr> player_id = ''p2'', name = ''New Bowler'', role = ''Bowler'',
     player_image = None, battingAverage = Num 0, strikeRate = Num 0, totalRuns = Num 0,
     wickets = Num 3, bowlingEconomy = Num 5, matchesPlayed = Num 0,
     runsPerMatch = [], wicketsPerMatch = [], fours = Num 0, sixes = Num 0,
     fieldingRating = Num 70, fitnessScore = Num 80, catches = Num 0 \<rparr>"

text \<open>A bowler whose batting average is not above 20.\<close>

definition tail_ender :: Player where
  "tail_ender = \<lparr> player_id = ''p3'', name = ''Ravi Iyer'', role = ''Bowler'',
     player_image = None, battingAverage = Num 12, strikeRate = Num 80, totalRuns = Num 240,
     wickets = Num 30, bowlingEconomy = Num 6, matchesPlayed = Num 20,
     runsPerMatch = [Num 10, Num 14], wicketsPerMatch = [Num 2, Num 1], fours = Num 20,
     sixes = Num 2, fieldingRating = Num 60, fitnessScore = Num 85, catches = Num 5 \<rparr>"

definition six_hitter :: Player where
  "six_hitter = batter\<lparr>fours := Num 0, sixes := Num 2\<rparr>"

definition nameless :: Player where
  "nameless = batter\<lparr>name := ''X''\<rparr>"

definition browser0 :: Browser where
  "browser0 = \<lparr> ls_players = Some [batter], ls_settings = None, ls_history = None,
     cache_players = None, clock = (\<lambda>n. n), clock_reads = 0,
     random = (\<lambda>n. ''abc''), random_draws = 0 \<rparr>"

definition bad_browser :: Browser where
  "bad_browser = browser0\<lparr>ls_players := Some [nameless]\<rparr>"

text \<open>
  A stored player whose image is not the one of the shipped roster, and a roster into
  which \<open>updatePlayerStats\<close> has just recorded a match with \<open>NaN\<close> runs.
\<close>

definition stale_batter :: Player where
  "stale_batter = batter\<lparr>player_image := Some ''old.png''\<rparr>"

definition shipped :: "Player list" where
  "shipped = [batter\<lparr>player_image := Some ''new.png''\<rparr>]"

definition stale_browser :: Browser where
  "stale_browser = browser0\<lparr>ls_players := Some [stale_batter]\<rparr>"

definition nan_browser :: Browser where
  "nan_browser = snd (updatePlayerStats [] ''p1'' NaN (Num 0) browser0)"

definition good_doc :: ExportData where
  "good_doc = \<lparr> export_version = Some ''1.0'', export_date = Some 0,
     export_players = Some [batter], export_settings = None, export_history = None \<rparr>"

definition bad_doc :: ExportData where
  "bad_doc = good_doc\<lparr>export_players := Some [batter, nameless]\<rparr>"

section \<open>What an import must refuse\<close>

text \<open>
  The texts that an import has to turn down: one that does not parse, one without a
  version (an empty version counts as none, as in the code's test \<open>!data.version\<close>), one
  without players, and one in which some player fails \<open>validatePlayer\<close>.
\<close>

definition import_rejects :: "JsonText \<Rightarrow> bool" where
  "import_rejects j =
     (case j of
        Unparsable \<Rightarrow> True
      | Document d \<Rightarrow>
          (case export_version d of None \<Rightarrow> True | Some v \<Rightarrow> v = []) \<or>
          (case export_players d of
             None \<Rightarrow> True
           | Some ps \<Rightarrow> \<exists>p\<in>set ps. validatePlayer (as_partial p) \<noteq> Success ()))"

section \<open>Auxiliary lemmas\<close>

lemmas js_defs = js_sub_def js_gt_def js_eq_def js_le_def js_ge_def Math_min_def Math_max_def
  inf_times_def len_def sum_reduce_def sum_by_def clamp_def round1_def slice_def
  slice_last_def

lemmas ds_defs = getAllPlayers_def getFromCache_def setCache_def savePlayers_def Date_now_def
  Math_random_def generateId_def syncPlayerImages_def getPlayerById_def getSettings_def
  saveSettings_def getHistory_def addHistoryEntry_def updatePlayer_def updatePlayerStats_def
  exportData_def importData_def recalculateBattingAverage_def

lemmas vp_defs = validatePlayer_def as_partial_def out_of_range_def trim_def is_space_def
  spread_def no_fields_def or_else_def

subsection \<open>Players without matches\<close>

text \<open>
  What the guards do give for a player with \<open>matchesPlayed = 0\<close>: the two per-match
  averages are 0, and the two bowling ratings are 0 when the player has no wicket either.
\<close>

lemma per_match_metrics_zero:
  "matchesPlayed p = Num 0 \<Longrightarrow>
     calculateRunsPerMatch p = Num 0 \<and> calculateWicketsPerMatch p = Num 0"
  by (simp add: calculateRunsPerMatch_def calculateWicketsPerMatch_def js_eq_def)

lemma bowling_rating_zero_wickets:
  "wickets p = Num 0 \<Longrightarrow> calculateBowlingRating p = Num 0 \<and> calculateBowlingIndex p = Num 0"
  by (simp add: calculateBowlingRating_def calculateBowlingIndex_def js_eq_def)

text \<open>
  With wickets and no match the quotient is infinite, and \<open>calculateBowlingRating\<close> is
  100 whatever the (finite) economy.
\<close>

lemma bowling_rating_infinite_rate:
  assumes "matchesPlayed p = Num 0" "wickets p = Num w" "0 < w" "bowlingEconomy p = Num e"
  shows "calculateBowlingRating p = Num 100"
  using assms by (simp add: calculateBowlingRating_def js_defs)

subsection \<open>The moving average\<close>

text \<open>
  The invariant of the loop: the array built so far has \<open>i\<close> elements; the loop keeps
  them, ends with as many elements as the input, and each element it adds obeys the
  recurrence.
\<close>

lemma ema_loop_inv:
  "length result = i \<Longrightarrow> 0 < i \<Longrightarrow> i \<le> length values \<Longrightarrow>
   length (ema_loop alpha values i result) = length values \<and>
   take i (ema_loop alpha values i result) = result \<and>
   (\<forall>k. i \<le> k \<and> k < length values \<longrightarrow>
      ema_loop alpha values i result ! k =
        js_add (js_mul alpha (values ! k))
               (js_mul (js_sub (Num 1) alpha) (ema_loop alpha values i result ! (k - 1))))"
proof (induction alpha "values" i result rule: ema_loop.induct)
  case (1 alpha "values" i result)
  show ?case
  proof (cases "i < length values")
    case False
    have "ema_loop alpha values i result = result"
      using False by (subst ema_loop.simps) simp
    with "1.prems" False show ?thesis by auto
  next
    case True
    let ?new = "js_add (js_mul alpha (values ! i))
                  (js_mul (js_sub (Num 1) alpha) (result ! (i - 1)))"
    let ?r = "result @ [?new]"
    let ?out = "ema_loop alpha values (i + 1) ?r"
    have unfold: "ema_loop alpha values i result = ?out"
      using True by (subst ema_loop.simps) simp
    have ih: "length ?out = length values \<and> take (i + 1) ?out = ?r \<and>
       (\<forall>k. i + 1 \<le> k \<and> k < length values \<longrightarrow>
          ?out ! k = js_add (js_mul alpha (values ! k))
                       (js_mul (js_sub (Num 1) alpha) (?out ! (k - 1))))"
      using "1.IH" [OF True] "1.prems" True by simp
    have pre: "?out ! k = ?r ! k" if "k < i + 1" for k
    proof -
      from that have "take (i + 1) ?out ! k = ?out ! k" by simp
      with ih show ?thesis by simp
    qed
    have t: "take i ?out = result"
    proof -
      have "take i ?out = take i (take (i + 1) ?out)" by (simp add: min_def)
      also have "\<dots> = take i ?r" using ih by simp
      also have "\<dots> = result" using "1.prems" by simp
      finally show ?thesis .
    qed
    have at_i: "?out ! i = ?new"
      using pre [of i] "1.prems" by (simp add: nth_append)
    have before: "?out ! (i - 1) = result ! (i - 1)"
      using pre [of "i - 1"] "1.prems" by (simp add: nth_append)
    have step: "\<forall>k. i \<le> k \<and> k < length values \<longrightarrow>
          ?out ! k = js_add (js_mul alpha (values ! k))
                       (js_mul (js_sub (Num 1) alpha) (?out ! (k - 1)))"
    proof (intro allI impI)
      fix k assume k: "i \<le> k \<and> k < length values"
      show "?out ! k = js_add (js_mul alpha (values ! k))
                         (js_mul (js_sub (Num 1) alpha) (?out ! (k - 1)))"
      proof (cases "k = i")
        case True
        then show ?thesis using at_i before by simp
      next
        case False
        with k have "i + 1 \<le> k \<and> k < length values" by simp
        with ih show ?thesis by blast
      qed
    qed
    show ?thesis using ih t step unfold by simp
  qed
qed

lemma ema_loop_start:
  assumes "values \<noteq> []"
  shows "length (ema_loop alpha values 1 [values ! 0]) = length values"
    and "ema_loop alpha values 1 [values ! 0] ! 0 = values ! 0"
    and "\<And>k. 1 \<le> k \<Longrightarrow> k < length values \<Longrightarrow>
      ema_loop alpha values 1 [values ! 0] ! k =
        js_add (js_mul alpha (values ! k))
               (js_mul (js_sub (Num 1) alpha) (ema_loop alpha values 1 [values ! 0] ! (k - 1)))"
proof -
  let ?out = "ema_loop alpha values 1 [values ! 0]"
  from assms have l: "(1::nat) \<le> length values" by (cases "values") simp_all
  have a: "length [values ! 0] = 1" by simp
  have b: "0 < (1::nat)" by simp
  note inv = ema_loop_inv [OF a b l, of alpha]
  from inv show "length ?out = length values" by blast
  from inv have t: "take 1 ?out = [values ! 0]" by blast
  have "take 1 ?out ! 0 = ?out ! 0" by simp
  with t show "?out ! 0 = values ! 0" by simp
  fix k assume "1 \<le> k" "k < length values"
  with inv show "?out ! k =
        js_add (js_mul alpha (values ! k)) (js_mul (js_sub (Num 1) alpha) (?out ! (k - 1)))"
    by blast
qed

lemma ema_nonempty:
  "values \<noteq> [] \<Longrightarrow>
     calculateExponentialMovingAverage values alpha = ema_loop alpha values 1 [values ! 0]"
  by (simp add: calculateExponentialMovingAverage_def)

lemma ema_length: "length (calculateExponentialMovingAverage values alpha) = length values"
proof (cases "values = []")
  case True
  then show ?thesis by (simp add: calculateExponentialMovingAverage_def)
next
  case False
  show ?thesis
    unfolding ema_nonempty [OF False] by (rule ema_loop_start(1) [OF False])
qed

lemma ema_first:
  assumes "values \<noteq> []"
  shows "calculateExponentialMovingAverage values alpha ! 0 = values ! 0"
  unfolding ema_nonempty [OF assms] by (rule ema_loop_start(2) [OF assms])

lemma ema_rec:
  assumes "0 < i" "i < length values"
  shows "calculateExponentialMovingAverage values alpha ! i =
     js_add (js_mul alpha (values ! i))
       (js_mul (js_sub (Num 1) alpha) (calculateExponentialMovingAverage values alpha ! (i - 1)))"
proof -
  from assms have ne: "values \<noteq> []" by auto
  from assms have "1 \<le> i" by simp
  from ema_loop_start(3) [OF ne this assms(2), of alpha]
  show ?thesis unfolding ema_nonempty [OF ne] .
qed

lemma predict_trend_factor:
  assumes "2 \<le> length values"
  shows "predictNextValue values =
           js_mul (last (calculateExponentialMovingAverage values (Num 0.4))) (Num 1.05)
       \<or> predictNextValue values =
           js_mul (last (calculateExponentialMovingAverage values (Num 0.4))) (Num 1)
       \<or> predictNextValue values =
           js_mul (last (calculateExponentialMovingAverage values (Num 0.4))) (Num 0.95)"
proof -
  let ?ema = "calculateExponentialMovingAverage values (Num 0.4)"
  have "length ?ema = length values" by (rule ema_length)
  with assms have ne: "?ema \<noteq> []" by auto
  then have l: "?ema ! (length ?ema - 1) = last ?ema" by (simp add: last_conv_nth)
  from assms have ne0: "values \<noteq> []" and ne1: "length values \<noteq> Suc 0" by auto
  have "predictNextValue values = js_mul (last ?ema)
      (if calculateTrendDirection values = Up then Num 1.05
       else if calculateTrendDirection values = Down then Num 0.95 else Num 1)"
    using ne0 ne1 l by (simp add: predictNextValue_def Let_def)
  then show ?thesis by (cases "calculateTrendDirection values") simp_all
qed

subsection \<open>Finite results\<close>

text \<open>
  On lists of finite numbers the sums, means and variances are those of real arithmetic,
  and the variance is not negative, so that its square root is a number.
\<close>

lemma is_finite_iff: "is_finite x \<longleftrightarrow> (\<exists>a. x = Num a)"
  by (cases x) simp_all

lemma all_finite_map: "list_all is_finite xs \<Longrightarrow> \<exists>rs. xs = map Num rs"
proof (induction xs)
  case Nil
  then show ?case by simp
next
  case (Cons x xs)
  then obtain a bs where "x = Num a" "xs = map Num bs" by (auto simp: is_finite_iff)
  then have "x # xs = map Num (a # bs)" by simp
  then show ?case by (rule exI)
qed

lemma foldl_add_Num: "foldl js_add (Num a) (map Num rs) = Num (a + sum_list rs)"
  by (induction rs arbitrary: a) (simp_all add: add.assoc)

lemma sum_reduce_Num: "sum_reduce (map Num rs) = Num (sum_list rs)"
  by (simp add: sum_reduce_def foldl_add_Num)

lemma sum_by_Num:
  "(\<And>x. x \<in> set xs \<Longrightarrow> f x = Num (g x)) \<Longrightarrow> sum_by f xs = Num (sum_list (map g xs))"
proof -
  assume h: "\<And>x. x \<in> set xs \<Longrightarrow> f x = Num (g x)"
  have "\<And>a. (\<And>x. x \<in> set xs \<Longrightarrow> f x = Num (g x)) \<Longrightarrow>
     foldl (\<lambda>sum p. js_add sum (f p)) (Num a) xs = Num (a + sum_list (map g xs))"
    by (induction xs) (simp_all add: add.assoc)
  from this [OF h, of 0] show ?thesis by (simp add: sum_by_def)
qed

lemma mean_Num:
  "calculateMean (map Num rs) = Num (if rs = [] then 0 else sum_list rs / real (length rs))"
  by (simp add: calculateMean_def sum_reduce_Num len_def)

lemma mean_Num_comp:
  "calculateMean (map (Num \<circ> f) xs) =
     Num (if xs = [] then 0 else sum_list (map f xs) / real (length xs))"
  using mean_Num [of "map f xs"] by simp

lemma pow2_Num: "Math_pow (js_sub (Num r) (Num m)) 2 = Num ((r - m) * (r - m))"
  by (simp add: js_sub_def eval_nat_numeral)

lemma sq_map:
  "map (\<lambda>val. Math_pow (js_sub val (Num m)) 2) (map Num rs) = map Num (map (\<lambda>r. (r - m) * (r - m)) rs)"
  by (simp add: pow2_Num)

lemma sum_sq_nonneg: "0 \<le> sum_list (map (\<lambda>r. (r - m) * (r - m)) (rs :: real list))"
  by (rule sum_list_nonneg) auto

lemma variance_Num:
  "\<exists>v. 0 \<le> v \<and> calculateVariance (map Num rs) = Num v"
proof (cases "rs = []")
  case True
  then show ?thesis by (simp add: calculateVariance_def)
next
  case False
  obtain m where m: "calculateMean (map Num rs) = Num m" by (simp add: mean_Num)
  let ?sq = "map (\<lambda>r. (r - m) * (r - m)) rs"
  have "calculateVariance (map Num rs) = calculateMean (map Num ?sq)"
    using False m by (simp add: calculateVariance_def o_def pow2_Num)
  also have "\<dots> = Num (sum_list ?sq / real (length rs))"
    using False by (simp add: mean_Num_comp)
  finally show ?thesis using sum_sq_nonneg [of m rs] by auto
qed

lemma stddev_Num:
  "\<exists>v. 0 \<le> v \<and> calculateStandardDeviation (map Num rs) = Num v"
proof (cases "rs = []")
  case True
  then show ?thesis by (simp add: calculateStandardDeviation_def)
next
  case False
  obtain m where m: "calculateMean (map Num rs) = Num m" by (simp add: mean_Num)
  let ?sq = "map (\<lambda>r. (r - m) * (r - m)) rs"
  have "calculateStandardDeviation (map Num rs) = Math_sqrt (calculateMean (map Num ?sq))"
    using False m by (simp add: calculateStandardDeviation_def o_def pow2_Num)
  also have "\<dots> = Math_sqrt (Num (sum_list ?sq / real (length rs)))"
    using False by (simp add: mean_Num_comp)
  also have "\<dots> = Num (sqrt (sum_list ?sq / real (length rs)))"
    using sum_sq_nonneg [of m rs] by (simp add: not_less)
  finally show ?thesis using sum_sq_nonneg [of m rs] by auto
qed

lemma min_finite [simp]: "is_finite a \<Longrightarrow> is_finite b \<Longrightarrow> is_finite (Math_min a b)"
  by (auto simp: is_finite_iff Math_min_def)

lemma max_finite [simp]: "is_finite a \<Longrightarrow> is_finite b \<Longrightarrow> is_finite (Math_max a b)"
  by (auto simp: is_finite_iff Math_max_def)

lemma add_finite [simp]: "is_finite a \<Longrightarrow> is_finite b \<Longrightarrow> is_finite (js_add a b)"
  by (auto simp: is_finite_iff)

lemma sub_finite [simp]: "is_finite a \<Longrightarrow> is_finite b \<Longrightarrow> is_finite (js_sub a b)"
  by (auto simp: is_finite_iff js_sub_def)

lemma mul_finite [simp]: "is_finite a \<Longrightarrow> is_finite b \<Longrightarrow> is_finite (js_mul a b)"
  by (auto simp: is_finite_iff)

lemma div_finite [simp]:
  "is_finite a \<Longrightarrow> is_finite b \<Longrightarrow> b \<noteq> Num 0 \<Longrightarrow> is_finite (js_div a b)"
  by (auto simp: is_finite_iff)

lemma len_finite [simp]: "is_finite (len xs)"
  by (simp add: len_def)

lemma len_nonzero [simp]: "xs \<noteq> [] \<Longrightarrow> len xs \<noteq> Num 0"
  by (simp add: len_def)

lemma sum_reduce_finite [simp]: "list_all is_finite xs \<Longrightarrow> is_finite (sum_reduce xs)"
  by (auto dest!: all_finite_map simp: sum_reduce_Num)

lemma mean_finite: "list_all is_finite xs \<Longrightarrow> is_finite (calculateMean xs)"
  by (auto dest!: all_finite_map simp: mean_Num)

lemma variance_finite: "list_all is_finite xs \<Longrightarrow> is_finite (calculateVariance xs)"
  using variance_Num by (auto dest!: all_finite_map simp: is_finite_iff) 

lemma stddev_finite: "list_all is_finite xs \<Longrightarrow> is_finite (calculateStandardDeviation xs)"
  using stddev_Num by (auto dest!: all_finite_map simp: is_finite_iff) 

lemma consistency_finite:
  "list_all is_finite xs \<Longrightarrow> is_finite (calculateConsistencyScore xs)"
proof -
  assume a: "list_all is_finite xs"
  have m: "is_finite (calculateMean xs)" by (rule mean_finite [OF a])
  have s: "is_finite (calculateStandardDeviation xs)" by (rule stddev_finite [OF a])
  show ?thesis
    using m s by (auto simp: calculateConsistencyScore_def Let_def clamp_def js_eq_def)
qed


lemma scalar_finite:
  assumes "is_finite v" "is_finite a" "is_finite b"
  shows "is_finite (calculateZScore v a b)" "is_finite (normalizeValue v a b)"
  using assms
  by (auto simp: calculateZScore_def normalizeValue_def js_eq_def js_sub_def is_finite_iff)

lemma percentage_finite:
  "is_finite a \<Longrightarrow> is_finite b \<Longrightarrow> is_finite (calculatePercentageDifference a b)"
  by (auto simp: calculatePercentageDifference_def js_eq_def js_sub_def is_finite_iff)

lemma clamp_finite:
  "is_finite v \<Longrightarrow> is_finite a \<Longrightarrow> is_finite b \<Longrightarrow> is_finite (clamp v a b)"
  by (simp add: clamp_def)

lemma player_ratio_finite:
  assumes "finite_player p"
  shows "is_finite (calculateStrikeRotation p)" "is_finite (calculateBoundaryPercentage p)"
    "is_finite (calculateRunsPerMatch p)" "is_finite (calculateWicketsPerMatch p)"
  using assms
  by (auto simp: finite_player_def calculateStrikeRotation_def calculateBoundaryPercentage_def
      calculateRunsPerMatch_def calculateWicketsPerMatch_def js_eq_def Let_def)

lemma sixToFour_cases:
  assumes "finite_player p"
  shows "calculateSixToFourRatio p =
           (if js_eq (fours p) (Num 0) \<and> js_gt (sixes p) (Num 0) then Infinity
            else calculateSixToFourRatio p)
         \<and> (\<not> (js_eq (fours p) (Num 0) \<and> js_gt (sixes p) (Num 0)) \<longrightarrow>
               is_finite (calculateSixToFourRatio p))"
  using assms
  by (auto simp: finite_player_def calculateSixToFourRatio_def js_eq_def)

lemma battingIndex_finite: "finite_player p \<Longrightarrow> is_finite (calculateBattingIndex p)"
  by (simp add: finite_player_def calculateBattingIndex_def Let_def consistency_finite)

lemma sum_by_sq_Num:
  "\<exists>v. 0 \<le> v \<and> sum_by (\<lambda>val. Math_pow (js_sub val (Num m)) 2) (map Num rs) = Num v"
proof -
  have "sum_by (\<lambda>val. Math_pow (js_sub val (Num m)) 2) (map Num rs)
          = Num (sum_list (map (\<lambda>x. (case x of Num r \<Rightarrow> (r - m) * (r - m) | _ \<Rightarrow> 0)) (map Num rs)))"
    by (rule sum_by_Num) (auto simp: pow2_Num)
  moreover have "0 \<le> sum_list (map (\<lambda>x. (case x of Num r \<Rightarrow> (r - m) * (r - m) | _ \<Rightarrow> 0)) (map Num rs))"
    by (rule sum_list_nonneg) auto
  ultimately show ?thesis by blast
qed

lemma engine_consistency_finite: "finite_player p \<Longrightarrow> is_finite (calculateConsistency p)"
proof -
  assume "finite_player p"
  then obtain rs where rs: "runsPerMatch p = map Num rs"
    by (auto simp: finite_player_def dest: all_finite_map)
  show ?thesis
  proof (cases "rs = []")
    case True
    with rs show ?thesis by (simp add: calculateConsistency_def)
  next
    case False
    let ?m = "sum_list rs / real (length rs)"
    have mean: "js_div (sum_reduce (map Num rs)) (len (map Num rs)) = Num ?m"
      using False by (simp add: sum_reduce_Num len_def)
    obtain v where v: "0 \<le> v"
      "sum_by (\<lambda>val. Math_pow (js_sub val (Num ?m)) 2) (map Num rs) = Num v"
      using sum_by_sq_Num by blast
    have var: "js_div (Num v) (len (map Num rs)) = Num (v / real (length rs))"
      using False by (simp add: len_def)
    have nn: "\<not> v / real (length rs) < 0"
      using v(1) by (simp add: not_less)
    show ?thesis
      using False rs nn
      by (simp add: calculateConsistency_def Let_def mean v(2) var js_gt_def)
  qed
qed

lemma impact_finite: "is_finite (calculateImpactScore p)"
  by (simp add: calculateImpactScore_def Let_def)

lemma list_all_take_drop:
  "list_all P xs \<Longrightarrow> list_all P (take n xs) \<and> list_all P (drop n xs)"
  by (auto simp: list_all_iff dest: in_set_takeD in_set_dropD)

lemma improvement_finite: "finite_player p \<Longrightarrow> is_finite (calculateRecentImprovement p)"
proof -
  assume "finite_player p"
  then have a: "list_all is_finite (runsPerMatch p)" by (simp add: finite_player_def)
  let ?h = "length (runsPerMatch p) div 2"
  have f: "is_finite (sum_reduce (take ?h (runsPerMatch p)))"
    "is_finite (sum_reduce (drop ?h (runsPerMatch p)))"
    using list_all_take_drop [OF a, of ?h] by simp_all
  show ?thesis
  proof (cases "length (runsPerMatch p) < 6")
    case True
    then show ?thesis by (simp add: calculateRecentImprovement_def)
  next
    case False
    then have ne: "take ?h (runsPerMatch p) \<noteq> []" "drop ?h (runsPerMatch p) \<noteq> []"
      by auto
    have fa: "is_finite (js_div (sum_reduce (take ?h (runsPerMatch p))) (len (take ?h (runsPerMatch p))))"
      using f(1) ne(1) by simp
    have sa: "is_finite (js_div (sum_reduce (drop ?h (runsPerMatch p))) (len (drop ?h (runsPerMatch p))))"
      using f(2) ne(2) by simp
    have nz: "js_gt x (Num 0) \<Longrightarrow> x \<noteq> Num 0" for x by (auto simp: js_gt_def)
    show ?thesis
      using False fa sa
      by (auto simp: calculateRecentImprovement_def Let_def slice_def intro!: mul_finite div_finite sub_finite nz)
  qed
qed

lemma potential_finite: "finite_player p \<Longrightarrow> is_finite (calculatePotential p)"
  using improvement_finite [of p]
  by (simp add: calculatePotential_def Let_def finite_player_def)

lemma sum_by_finite:
  "(\<And>x. x \<in> set xs \<Longrightarrow> is_finite (f x)) \<Longrightarrow> is_finite (sum_by f xs)"
proof -
  assume h: "\<And>x. x \<in> set xs \<Longrightarrow> is_finite (f x)"
  have "\<And>a. is_finite a \<Longrightarrow> (\<And>x. x \<in> set xs \<Longrightarrow> is_finite (f x)) \<Longrightarrow>
     is_finite (foldl (\<lambda>sum p. js_add sum (f p)) a xs)"
    by (induction xs) simp_all
  from this [OF _ h, of "Num 0"] show ?thesis by (simp add: sum_by_def)
qed

lemma bowlingStrength_finite:
  "list_all finite_player ps \<Longrightarrow> is_finite (calculateBowlingStrength ps)"
proof -
  assume a: "list_all finite_player ps"
  let ?b = "filter (\<lambda>p. js_gt (wickets p) (Num 10)) ps"
  have "is_finite (sum_by bowlingEconomy ?b)"
    using a by (intro sum_by_finite) (auto simp: list_all_iff finite_player_def)
  then show ?thesis
    by (auto simp: calculateBowlingStrength_def Let_def)
qed

lemma teamBalance_finite: "is_finite (calculateTeamBalance ps)"
  by (simp add: calculateTeamBalance_def Let_def)

lemma ema_loop_finite:
  "is_finite alpha \<Longrightarrow> list_all is_finite values \<Longrightarrow> list_all is_finite result \<Longrightarrow>
   length result = i \<Longrightarrow> 0 < i \<Longrightarrow> list_all is_finite (ema_loop alpha values i result)"
proof (induction alpha "values" i result rule: ema_loop.induct)
  case (1 alpha "values" i result)
  show ?case
  proof (cases "i < length values")
    case False
    then have "ema_loop alpha values i result = result"
      by (subst ema_loop.simps) simp
    with "1.prems" show ?thesis by simp
  next
    case True
    let ?new = "js_add (js_mul alpha (values ! i))
                  (js_mul (js_sub (Num 1) alpha) (result ! (i - 1)))"
    have vi: "is_finite (values ! i)"
      using "1.prems"(2) True by (simp add: list_all_length)
    have ri: "is_finite (result ! (i - 1))"
      using "1.prems"(3,4,5) by (simp add: list_all_length)
    have new: "is_finite ?new" using "1.prems"(1) vi ri by simp
    have "list_all is_finite (ema_loop alpha values (i + 1) (result @ [?new]))"
      using "1.IH" [OF True "1.prems"(1,2)] "1.prems"(3,4) new by simp
    moreover have "ema_loop alpha values i result = ema_loop alpha values (i + 1) (result @ [?new])"
      using True by (subst ema_loop.simps) simp
    ultimately show ?thesis by simp
  qed
qed

lemma ema_finite:
  assumes "is_finite alpha" "list_all is_finite values"
  shows "list_all is_finite (calculateExponentialMovingAverage values alpha)"
proof (cases "values = []")
  case True
  then show ?thesis by (simp add: calculateExponentialMovingAverage_def)
next
  case False
  then have "is_finite (values ! 0)" using assms(2) by (simp add: list_all_length)
  then have "list_all is_finite (ema_loop alpha values 1 [values ! 0])"
    by (intro ema_loop_finite assms) simp_all
  with False show ?thesis by (simp add: calculateExponentialMovingAverage_def)
qed

lemma predict_finite:
  assumes "list_all is_finite values"
  shows "is_finite (predictNextValue values)"
proof -
  let ?ema = "calculateExponentialMovingAverage values (Num 0.4)"
  have e: "list_all is_finite ?ema" by (rule ema_finite [OF _ assms]) simp
  have l: "length ?ema = length values" by (rule ema_length)
  show ?thesis
  proof (cases "length values < 2")
    case True
    then have "values = [] \<or> (\<exists>x. values = [x])"
      by (cases "values") (auto simp: length_Suc_conv)
    with assms show ?thesis by (auto simp: predictNextValue_def)
  next
    case False
    then have "length ?ema - 1 < length ?ema" using l by simp
    with e have "is_finite (?ema ! (length ?ema - 1))" by (simp add: list_all_length)
    with False show ?thesis by (auto simp: predictNextValue_def Let_def)
  qed
qed

lemma sixToFour_infinite:
  "js_eq (fours p) (Num 0) \<and> js_gt (sixes p) (Num 0) \<Longrightarrow> calculateSixToFourRatio p = Infinity"
  by (simp add: calculateSixToFourRatio_def)

lemma sixToFour_finite:
  "finite_player p \<Longrightarrow> \<not> (js_eq (fours p) (Num 0) \<and> js_gt (sixes p) (Num 0)) \<Longrightarrow>
     is_finite (calculateSixToFourRatio p)"
  by (auto simp: finite_player_def calculateSixToFourRatio_def js_eq_def)

lemma finite_on_lists:
  "list_all is_finite xs \<longrightarrow>
      is_finite (calculateMean xs) \<and> is_finite (calculateVariance xs) \<and>
      is_finite (calculateStandardDeviation xs) \<and>
      is_finite (calculateConsistencyScore xs) \<and> is_finite (predictNextValue xs) \<and>
      (is_finite alpha \<longrightarrow> list_all is_finite (calculateExponentialMovingAverage xs alpha))"
  by (simp add: mean_finite variance_finite stddev_finite consistency_finite predict_finite
      ema_finite)

lemma finite_on_scalars:
  "is_finite v \<and> is_finite a \<and> is_finite b \<longrightarrow>
      is_finite (calculateZScore v a b) \<and> is_finite (normalizeValue v a b) \<and>
      is_finite (clamp v a b) \<and> is_finite (calculatePercentageDifference a b)"
  by (simp add: scalar_finite clamp_finite percentage_finite)

lemma finite_on_players:
  "finite_player p \<longrightarrow>
      is_finite (calculateStrikeRotation p) \<and> is_finite (calculateBoundaryPercentage p) \<and>
      is_finite (calculateRunsPerMatch p) \<and> is_finite (calculateWicketsPerMatch p) \<and>
      is_finite (calculateBattingIndex p) \<and> is_finite (calculateConsistency p) \<and>
      is_finite (calculateImpactScore p) \<and> is_finite (calculateRecentImprovement p) \<and>
      is_finite (calculatePotential p) \<and>
      (js_eq (fours p) (Num 0) \<and> js_gt (sixes p) (Num 0) \<longrightarrow>
         calculateSixToFourRatio p = Infinity) \<and>
      (\<not> (js_eq (fours p) (Num 0) \<and> js_gt (sixes p) (Num 0)) \<longrightarrow>
         is_finite (calculateSixToFourRatio p))"
  by (simp add: player_ratio_finite battingIndex_finite engine_consistency_finite
      impact_finite improvement_finite potential_finite sixToFour_infinite sixToFour_finite)

lemma finite_on_rosters:
  "list_all finite_player ps \<longrightarrow>
      is_finite (calculateBowlingStrength ps) \<and> is_finite (calculateTeamBalance ps)"
  by (simp add: bowlingStrength_finite teamBalance_finite)

lemma zero_divisor_values:
  "calculateMean [] = Num 0
   \<and> calculateStandardDeviation [] = Num 0
   \<and> calculateVariance [] = Num 0
   \<and> (js_eq b (Num 0) \<longrightarrow>
        calculateZScore v a b = Num 0 \<and>
        calculatePercentageDifference a b = (if js_gt a (Num 0) then Num 100 else Num 0))
   \<and> (js_eq b a \<longrightarrow> normalizeValue v a b = Num 0)
   \<and> (js_eq (totalRuns p) (Num 0) \<longrightarrow>
        calculateStrikeRotation p = Num 0 \<and> calculateBoundaryPercentage p = Num 0)
   \<and> (js_eq (matchesPlayed p) (Num 0) \<longrightarrow>
        calculateRunsPerMatch p = Num 0 \<and> calculateWicketsPerMatch p = Num 0)
   \<and> (js_eq (calculateMean xs) (Num 0) \<longrightarrow> calculateConsistencyScore xs = Num 50)
   \<and> (js_eq (fours p) (Num 0) \<and> \<not> js_gt (sixes p) (Num 0) \<longrightarrow>
        calculateSixToFourRatio p = Num 0)
   \<and> (runsPerMatch p = [] \<longrightarrow> calculateConsistency p = Num 50)
   \<and> (filter (\<lambda>q. js_gt (wickets q) (Num 10)) ps = [] \<longrightarrow>
        calculateBowlingStrength ps = Num 0)
   \<and> (runsPerMatch p = [] \<longrightarrow>
        calculateImpactScore p =
          Math_min (js_mul (js_mul (len (filter (\<lambda>w. js_ge w (Num 3)) (wicketsPerMatch p)))
                              (Num 2)) (Num 20)) (Num 100))
   \<and> (\<not> js_gt (js_div (sum_reduce (slice 0 (length (runsPerMatch p) div 2) (runsPerMatch p)))
                      (len (slice 0 (length (runsPerMatch p) div 2) (runsPerMatch p))))
               (Num 0) \<longrightarrow>
        calculateRecentImprovement p = Num 0)"
  by (simp add: calculateMean_def calculateStandardDeviation_def calculateVariance_def
      calculateZScore_def normalizeValue_def calculateStrikeRotation_def
      calculateBoundaryPercentage_def calculateRunsPerMatch_def calculateWicketsPerMatch_def
      calculateConsistencyScore_def calculatePercentageDifference_def
      calculateSixToFourRatio_def calculateConsistency_def calculateBowlingStrength_def
      calculateImpactScore_def calculateRecentImprovement_def Let_def js_defs)

subsection \<open>The win probability\<close>

lemma clamp_round:
  "x \<noteq> NaN \<Longrightarrow>
     \<exists>r. Math_round (Math_min (Math_max x (Num 10)) (Num 90)) = Num r \<and> 10 \<le> r \<and> r \<le> 90"
proof (cases x)
  case (Num a)
  have "10 \<le> a \<Longrightarrow> a \<le> 90 \<Longrightarrow>
          10 \<le> real_of_int \<lfloor>a + 1 / 2\<rfloor> \<and> real_of_int \<lfloor>a + 1 / 2\<rfloor> \<le> 90"
    by (simp add: le_floor_iff floor_le_iff)
  with Num show ?thesis by (auto simp: Math_min_def Math_max_def)
qed (simp_all add: Math_min_def Math_max_def)

text \<open>
  The clamp works on every number but \<open>NaN\<close>: the win probability is either \<open>NaN\<close> or a
  number between 10 and 90.
\<close>

lemma winProbability_cases:
  "winProbability (simulateMatch players arg) = NaN \<or>
   (\<exists>r. winProbability (simulateMatch players arg) = Num r \<and> 10 \<le> r \<and> r \<le> 90)"
proof -
  let ?x = "js_add (Num 50)
     (js_mul (js_sub (teamStrength (analyzeTeam players))
                (case arg of None \<Rightarrow> Num 75 | Some v \<Rightarrow> v)) (Num 0.5))"
  have w: "winProbability (simulateMatch players arg) =
             Math_round (Math_min (Math_max ?x (Num 10)) (Num 90))"
    by (simp add: simulateMatch_def Let_def)
  show ?thesis
  proof (cases "?x = NaN")
    case True
    then show ?thesis unfolding w by (simp add: Math_max_def Math_min_def)
  next
    case False
    from clamp_round [OF False] show ?thesis unfolding w by blast
  qed
qed

subsection \<open>The data service\<close>

lemma first_invalid_None:
  "first_invalid ps = None \<longleftrightarrow> (\<forall>p\<in>set ps. validatePlayer (as_partial p) = Success ())"
  by (induction ps) (auto split: Response.splits)

lemma ls_players_setCache [simp]: "ls_players (setCache ps s) = ls_players s"
  by (simp add: setCache_def Date_now_def)

lemma ls_settings_setCache [simp]: "ls_settings (setCache ps s) = ls_settings s"
  by (simp add: setCache_def Date_now_def)

lemma ls_players_savePlayers [simp]: "ls_players (savePlayers ps s) = Some ps"
  by (simp add: savePlayers_def)

lemma ls_settings_savePlayers [simp]: "ls_settings (savePlayers ps s) = ls_settings s"
  by (simp add: savePlayers_def)

lemma ls_players_getSettings [simp]: "ls_players (snd (getSettings s)) = ls_players s"
  by (simp add: getSettings_def saveSettings_def split: option.splits)

lemma ls_players_addHistoryEntry [simp]:
  "ls_players (addHistoryEntry a b c d s) = ls_players s"
  by (simp add: addHistoryEntry_def generateId_def Date_now_def Math_random_def Let_def
      split: prod.splits)

lemma import_fail:
  assumes "import_rejects j"
  shows "\<exists>e. importData j s = (Failure e, s)"
proof (cases j)
  case Unparsable
  then show ?thesis by (simp add: importData_def)
next
  case (Document d)
  show ?thesis
  proof (cases "export_version d")
    case None
    with Document show ?thesis by (simp add: importData_def)
  next
    case (Some v)
    note v = this
    show ?thesis
    proof (cases "export_players d")
      case None
      with Document v show ?thesis by (simp add: importData_def)
    next
      case (Some ps)
      show ?thesis
      proof (cases "v = []")
        case True
        with Document v Some show ?thesis by (simp add: importData_def)
      next
        case False
        with assms Document v Some
        have "\<exists>p\<in>set ps. validatePlayer (as_partial p) \<noteq> Success ()"
          by (simp add: import_rejects_def)
        then have "first_invalid ps \<noteq> None" by (simp add: first_invalid_None)
        then obtain e where "first_invalid ps = Some e" by auto
        with Document v Some False show ?thesis by (simp add: importData_def)
      qed
    qed
  qed
qed

lemma import_ok:
  assumes "\<not> import_rejects j"
  shows "\<exists>d ps s'. j = Document d \<and> export_players d = Some ps \<and>
           importData j s = (Success (), s') \<and> ls_players s' = Some ps \<and>
           ls_settings s' =
             (case export_settings d of None \<Rightarrow> ls_settings s | Some st \<Rightarrow> Some st) \<and>
           (\<forall>p\<in>set ps. validatePlayer (as_partial p) = Success ())"
proof -
  from assms obtain d where j: "j = Document d"
    by (cases j) (simp_all add: import_rejects_def)
  from assms j obtain v where v: "export_version d = Some v" "v \<noteq> []"
    by (cases "export_version d") (simp_all add: import_rejects_def)
  from assms j obtain ps where ps: "export_players d = Some ps"
    by (cases "export_players d") (simp_all add: import_rejects_def)
  from assms j v ps have valid: "\<forall>p\<in>set ps. validatePlayer (as_partial p) = Success ()"
    by (simp add: import_rejects_def)
  then have fi: "first_invalid ps = None" by (simp add: first_invalid_None)
  show ?thesis using j v ps valid fi
    by (cases "export_settings d") (simp_all add: importData_def saveSettings_def)
qed

lemma length_slice_last: "length (slice_last n xs) \<le> n"
  by (simp add: slice_last_def)

lemma findIndex_Some:
  "findIndex P xs = Some i \<Longrightarrow> i < length xs \<and> P (xs ! i) \<and> (\<forall>j<i. \<not> P (xs ! j))"
proof (induction xs arbitrary: i)
  case Nil
  then show ?case by simp
next
  case (Cons x xs)
  show ?case
  proof (cases "P x")
    case True
    with Cons.prems show ?thesis by simp
  next
    case False
    with Cons.prems obtain k where k: "findIndex P xs = Some k" "i = Suc k" by auto
    from Cons.IH [OF k(1)] False k(2) show ?thesis
      by (auto simp: nth_Cons split: nat.splits)
  qed
qed

lemma find_update:
  "findIndex P xs = Some i \<Longrightarrow> P y \<Longrightarrow> find P (xs[i := y]) = Some y"
proof (induction xs arbitrary: i)
  case Nil
  then show ?case by simp
next
  case (Cons x xs)
  show ?case
  proof (cases "P x")
    case True
    with Cons.prems show ?thesis by simp
  next
    case False
    with Cons.prems obtain k where k: "findIndex P xs = Some k" "i = Suc k" by auto
    from Cons.IH [OF k(1) Cons.prems(2)] False k(2) show ?thesis by simp
  qed
qed

text \<open>With a working \<open>localStorage\<close>, reading the roster always succeeds.\<close>

lemma getAllPlayers_total: "\<exists>r s1. getAllPlayers ip s = (Success r, s1)"
  by (cases "getFromCache s")
     (auto simp: getAllPlayers_def Let_def split: option.splits)

text \<open>
  The roster that \<open>getAllPlayers\<close> returns: the cached one if the cache answers, else
  the stored one, each with the images synchronised; the initial roster if nothing is
  stored.
\<close>

lemma getAllPlayers_result:
  "fst (getAllPlayers ip s) =
     Success (case fst (getFromCache s) of
                Some cached \<Rightarrow> syncPlayerImages ip cached
              | None \<Rightarrow>
                  (case ls_players s of
                     Some stored \<Rightarrow> syncPlayerImages ip stored
                   | None \<Rightarrow> ip))"
proof -
  obtain c s1 where c: "getFromCache s = (c, s1)" by (cases "getFromCache s")
  then have "ls_players s1 = ls_players s"
    by (auto simp: getFromCache_def Date_now_def split: option.splits if_splits)
  with c show ?thesis
    by (cases c; cases "ls_players s") (simp_all add: getAllPlayers_def Let_def)
qed

text \<open>Synchronising the images a second time changes nothing.\<close>

lemma syncPlayerImages_idem:
  "syncPlayerImages ip (syncPlayerImages ip ps) = syncPlayerImages ip ps"
  by (induction ps) (auto simp: syncPlayerImages_def split: option.splits)

lemma updatePlayer_success:
  assumes "updatePlayer ip pid u s = (Success p', s')"
  shows "\<exists>data s1 i. getAllPlayers ip s = (Success data, s1) \<and>
           findIndex (\<lambda>p. player_id p = pid) data = Some i \<and>
           p' = spread (data ! i) u \<and> ls_players s' = Some (data[i := p'])"
proof -
  obtain data s1 where g: "getAllPlayers ip s = (Success data, s1)"
    using getAllPlayers_total by blast
  from assms g obtain i where i: "findIndex (\<lambda>p. player_id p = pid) data = Some i"
    by (cases "findIndex (\<lambda>p. player_id p = pid) data") (auto simp: updatePlayer_def)
  from assms g i have "validatePlayer (as_partial (spread (data ! i) u)) = Success ()"
    by (cases "validatePlayer (as_partial (spread (data ! i) u))")
       (auto simp: updatePlayer_def Let_def)
  with assms g i have "p' = spread (data ! i) u \<and> ls_players s' = Some (data[i := p'])"
    by (auto simp: updatePlayer_def Let_def)
  with g i show ?thesis by blast
qed

lemma batter_valid: "validatePlayer (as_partial batter) = Success ()"
  by (simp add: vp_defs batter_def js_defs)

lemma nameless_invalid:
  "validatePlayer (as_partial nameless) =
     Failure ''Player name must be at least 2 characters''"
  by (simp add: vp_defs batter_def nameless_def js_defs)

subsection \<open>The exported text and the round trip\<close>

lemma typed_number_JSON: "is_finite x \<Longrightarrow> typed_number (JSON_number x) = Some x"
  by (cases x) simp_all

lemma those_typed_numbers:
  "list_all is_finite xs \<Longrightarrow> those (map typed_number (map JSON_number xs)) = Some xs"
  by (induction xs) (simp_all add: typed_number_JSON)

lemma those_typed_numbers_comp:
  "list_all is_finite xs \<Longrightarrow> those (map (typed_number \<circ> JSON_number) xs) = Some xs"
  using those_typed_numbers [of xs] by simp

lemma typed_player_JSON: "finite_player p \<Longrightarrow> typed_player (JSON_player p) = Some p"
  by (simp add: finite_player_def typed_player_def JSON_player_def typed_number_JSON
      those_typed_numbers_comp)

lemma those_typed_players:
  "list_all finite_player ps \<Longrightarrow> those (map typed_player (map JSON_player ps)) = Some ps"
  by (induction ps) (simp_all add: typed_player_JSON)

lemma those_typed_players_comp:
  "list_all finite_player ps \<Longrightarrow> those (map (typed_player \<circ> JSON_player) ps) = Some ps"
  using those_typed_players [of ps] by simp

lemma typed_settings_JSON:
  "is_finite (analyticsRefreshRate st) \<Longrightarrow> typed_settings (JSON_settings st) = Some st"
  by (simp add: typed_settings_def JSON_settings_def typed_number_JSON)

lemma typed_parse_stringify:
  assumes "case export_players d of None \<Rightarrow> True | Some ps \<Rightarrow> list_all finite_player ps"
      and "case export_settings d of None \<Rightarrow> True | Some st \<Rightarrow> is_finite (analyticsRefreshRate st)"
  shows "typed_parse (JSON_stringify d) = Some (Document d)"
  using assms
  by (cases "export_players d"; cases "export_settings d")
     (simp_all add: typed_parse_def JSON_stringify_def those_typed_players_comp
        typed_settings_JSON)

lemma ls_settings_getAllPlayers [simp]:
  "ls_settings (snd (getAllPlayers ip s)) = ls_settings s"
  by (auto simp: getAllPlayers_def getFromCache_def setCache_def savePlayers_def Date_now_def
      Let_def split: option.splits prod.splits if_splits)

lemma getAllPlayers_stored:
  assumes "ls_players s = Some r" "cache_agrees s"
  shows "fst (getAllPlayers ip s) = Success (syncPlayerImages ip r)"
proof -
  have "fst (getFromCache s) = None \<or> fst (getFromCache s) = Some r"
    using assms
    by (auto simp: getFromCache_def cache_agrees_def Date_now_def split: option.splits)
  with assms(1) show ?thesis by (auto simp: getAllPlayers_result)
qed

lemma validate_image [simp]:
  "validatePlayer (as_partial (p\<lparr>player_image := x\<rparr>)) = validatePlayer (as_partial p)"
  by (simp add: validatePlayer_def as_partial_def)

lemma finite_image [simp]: "finite_player (p\<lparr>player_image := x\<rparr>) = finite_player p"
  by (simp add: finite_player_def)

lemma sync_preserves:
  assumes "\<And>p x. P (p\<lparr>player_image := x\<rparr>) = P p"
  shows "list_all P (syncPlayerImages ip r) = list_all P r"
  by (induction r) (auto simp: syncPlayerImages_def assms split: option.splits)

lemma valid_sync:
  assumes "\<forall>p\<in>set r. validatePlayer (as_partial p) = Success ()"
  shows "\<forall>q\<in>set (syncPlayerImages ip r). validatePlayer (as_partial q) = Success ()"
  using assms
    sync_preserves [of "\<lambda>p. validatePlayer (as_partial p) = Success ()" ip r]
  by (simp add: list_all_iff)

lemma finite_sync:
  assumes "list_all finite_player r"
  shows "list_all finite_player (syncPlayerImages ip r)"
  using assms sync_preserves [of finite_player ip r] by simp

lemma roundtrip_returned:
  assumes g: "fst (getAllPlayers ip s) = Success roster"
      and valid: "\<forall>p\<in>set roster. validatePlayer (as_partial p) = Success ()"
      and fin: "list_all finite_player roster"
      and fs: "finite_settings s"
  shows "\<exists>txt d s1 s2. exportData ip s = (Success txt, s1) \<and>
           typed_parse txt = Some (Document d) \<and>
           export_players d = Some roster \<and>
           importData (Document d) s1 = (Success (), s2) \<and>
           ls_players s2 = Some roster \<and>
           fst (getAllPlayers ip s2) = Success (syncPlayerImages ip roster)"
proof -
  obtain s0 where g0: "getAllPlayers ip s = (Success roster, s0)"
    using g by (cases "getAllPlayers ip s") simp
  obtain st s1 where gs: "getSettings s0 = (st, s1)" by (cases "getSettings s0")
  obtain now s2 where dn: "Date_now s1 = (now, s2)" by (cases "Date_now s1")
  have ls: "ls_settings s0 = ls_settings s"
    using ls_settings_getAllPlayers [of ip s] g0 by simp
  have "\<exists>x. st = Success x \<and> is_finite (analyticsRefreshRate x)"
  proof (cases "ls_settings s0")
    case None
    with gs have "st = Success defaultSettings" by (simp add: getSettings_def)
    then show ?thesis by (simp add: defaultSettings_def)
  next
    case (Some y)
    with gs have "st = Success y" by (simp add: getSettings_def)
    moreover from ls Some have "ls_settings s = Some y" by simp
    with fs have "is_finite (analyticsRefreshRate y)"
      by (simp add: finite_settings_def)
    ultimately show ?thesis by simp
  qed
  then obtain x where x: "st = Success x" "is_finite (analyticsRefreshRate x)" by blast
  let ?d = "\<lparr> export_version = Some ''1.0'', export_date = Some now,
             export_players = Some roster, export_settings = Some x,
             export_history =
               (case getHistory None s1 of Success d \<Rightarrow> Some d | Failure e \<Rightarrow> None) \<rparr>"
  have e: "exportData ip s = (Success (JSON_stringify ?d), s2)"
    using g0 gs dn x by (simp add: exportData_def)
  have tp: "typed_parse (JSON_stringify ?d) = Some (Document ?d)"
    using fin x(2) by (intro typed_parse_stringify) simp_all
  let ?s3 = "saveSettings x (savePlayers roster s2)"
  have i: "importData (Document ?d) s2 = (Success (), ?s3)"
    using valid first_invalid_None [of roster] by (simp add: importData_def)
  have lp: "ls_players ?s3 = Some roster"
    by (simp add: saveSettings_def)
  have after: "fst (getAllPlayers ip ?s3) = Success (syncPlayerImages ip roster)"
    by (simp add: getAllPlayers_def getFromCache_def savePlayers_def setCache_def
        Date_now_def Let_def saveSettings_def)
  have ep: "export_players ?d = Some roster" by simp
  show ?thesis
  proof (intro exI conjI)
    show "exportData ip s = (Success (JSON_stringify ?d), s2)" by (rule e)
    show "typed_parse (JSON_stringify ?d) = Some (Document ?d)" by (rule tp)
    show "export_players ?d = Some roster" by (rule ep)
    show "importData (Document ?d) s2 = (Success (), ?s3)" by (rule i)
    show "ls_players ?s3 = Some roster" by (rule lp)
    show "fst (getAllPlayers ip ?s3) = Success (syncPlayerImages ip roster)" by (rule after)
  qed
qed

lemma roundtrip_stored:
  assumes stored: "ls_players s = Some r"
      and cache: "cache_agrees s"
      and valid: "\<forall>p\<in>set r. validatePlayer (as_partial p) = Success ()"
      and fin: "list_all finite_player r"
      and fs: "finite_settings s"
  shows "\<exists>txt d s1 s2. exportData ip s = (Success txt, s1) \<and>
           typed_parse txt = Some (Document d) \<and>
           export_players d = Some (syncPlayerImages ip r) \<and>
           importData (Document d) s1 = (Success (), s2) \<and>
           ls_players s2 = Some (syncPlayerImages ip r) \<and>
           (syncPlayerImages ip r = r \<longrightarrow> ls_players s2 = ls_players s)"
proof -
  from roundtrip_returned [OF getAllPlayers_stored [OF stored cache]
      valid_sync [OF valid] finite_sync [OF fin] fs]
  obtain t d s1 s2 where
    f: "exportData ip s = (Success t, s1)" "typed_parse t = Some (Document d)"
    "export_players d = Some (syncPlayerImages ip r)"
    "importData (Document d) s1 = (Success (), s2)"
    "ls_players s2 = Some (syncPlayerImages ip r)"
    by blast
  have same: "syncPlayerImages ip r = r \<longrightarrow> ls_players s2 = ls_players s"
    using f(5) stored by simp
  show ?thesis
  proof (intro exI conjI)
    show "exportData ip s = (Success t, s1)" by (rule f(1))
    show "typed_parse t = Some (Document d)" by (rule f(2))
    show "export_players d = Some (syncPlayerImages ip r)" by (rule f(3))
    show "importData (Document d) s1 = (Success (), s2)" by (rule f(4))
    show "ls_players s2 = Some (syncPlayerImages ip r)" by (rule f(5))
    show "syncPlayerImages ip r = r \<longrightarrow> ls_players s2 = ls_players s" by (rule same)
  qed
qed


lemmas json_defs = JSON_stringify_def JSON_player_def JSON_settings_def typed_parse_def
  typed_player_def typed_settings_def

lemma invalid_roster_not_imported: "\<exists>txt d s1. exportData [] bad_browser = (Success txt, s1) \<and>
     typed_parse txt = Some (Document d) \<and>
     fst (importData (Document d) s1) =
       Failure ''Invalid player data: Player name must be at least 2 characters''"
  by (simp add: exportData_def ds_defs bad_browser_def browser0_def Let_def json_defs defaultSettings_def
      nameless_def batter_def vp_defs js_defs)

lemma stale_image_replaced: "\<exists>txt d s1 s2. exportData shipped stale_browser = (Success txt, s1) \<and>
     typed_parse txt = Some (Document d) \<and>
     importData (Document d) s1 = (Success (), s2) \<and>
     ls_players stale_browser = Some [stale_batter] \<and>
     ls_players s2 = Some [stale_batter\<lparr>player_image := Some ''new.png''\<rparr>]"
  by (simp add: exportData_def ds_defs stale_browser_def stale_batter_def shipped_def browser0_def Let_def json_defs defaultSettings_def
      batter_def vp_defs js_defs)

lemma nan_exported_as_null: "\<exists>p txt s1 j. fst (getAllPlayers [] nan_browser) = Success [p] \<and>
     totalRuns p = NaN \<and> validatePlayer (as_partial p) = Success () \<and>
     exportData [] nan_browser = (Success txt, s1) \<and>
     text_players txt = Some [j] \<and> json_totalRuns j = JNull \<and> typed_parse txt = None"
  by (simp add: exportData_def ds_defs nan_browser_def browser0_def Let_def json_defs defaultSettings_def
      batter_def vp_defs js_defs cacheExpiry_def)

section \<open>Properties\<close>

subsection \<open>Metrics of a player without matches\<close>

text \<open>
  Claim C1. For a player with \<open>matchesPlayed = 0\<close> every per-match metric (runs per
  match, wickets per match, bowling rating) is to return exactly 0 without dividing by
  zero. \<open>calculateRunsPerMatch\<close> and \<open>calculateWicketsPerMatch\<close> test \<open>matchesPlayed\<close>
  and do so. The two bowling ratings test \<open>wickets\<close> instead and then divide
  \<open>wickets\<close> by \<open>matchesPlayed\<close>: for the player \<open>rookie\<close>, who has three wickets and no
  match, the quotient is \<open>Infinity\<close>, \<open>calculateBowlingRating\<close> returns 100 and
  \<open>calculateBowlingIndex\<close> returns 62.5.
\<close>

theorem bowling_rating_without_matches:
  "matchesPlayed rookie = Num 0
   \<and> calculateRunsPerMatch rookie = Num 0
   \<and> calculateWicketsPerMatch rookie = Num 0
   \<and> js_div (wickets rookie) (matchesPlayed rookie) = Infinity
   \<and> calculateBowlingRating rookie = Num 100
   \<and> calculateBowlingIndex rookie = Num 62.5"
  by (simp add: calculateRunsPerMatch_def calculateWicketsPerMatch_def
      calculateBowlingRating_def calculateBowlingIndex_def calculateConsistencyScore_def
      rookie_def js_defs)

subsection \<open>The win probability of a simulated match\<close>

text \<open>
  Claim C2. The win probability that \<open>simulateMatch\<close> returns is to lie between 10 and
  90 for every roster and every opponent strength. \<open>calculateBattingDepth\<close> divides the
  sum of the batting averages above 20 by the number of such players without testing
  that there is one. For a roster without such a player (the empty roster, or the single
  bowler \<open>tail_ender\<close>) the quotient is \<open>0 / 0\<close>, and the \<open>NaN\<close> passes through the team
  strength, \<open>Math.max\<close>, \<open>Math.min\<close> and \<open>Math.round\<close>: the win probability is \<open>NaN\<close>.
\<close>

theorem winProbability_without_batsmen:
  "calculateBattingDepth [] = NaN
   \<and> winProbability (simulateMatch [] None) = NaN
   \<and> calculateBattingDepth [tail_ender] = NaN
   \<and> winProbability (simulateMatch [tail_ender] (Some (Num 75))) = NaN"
  by (simp add: simulateMatch_def analyzeTeam_def calculateBattingDepth_def
      calculateBowlingStrength_def calculateFieldingEfficiency_def calculateTeamBalance_def
      count_role_def tail_ender_def js_defs)

subsection \<open>Export followed by import\<close>

text \<open>
  Claim C3, as amended. The claim is that for every roster, exporting the data and
  importing the exported text succeeds and reproduces the stored roster. It fails in
  three ways, shown by the counterexample below: the import validates every player and
  the export does not; the export replaces each image by the one of the shipped roster;
  and the text carries \<open>null\<close> for a number that is not finite. What holds: let a
  roster be stored whose players all pass \<open>validatePlayer\<close> and hold finite numbers
  only, with the cache empty or holding the same roster and with finite settings. Then
  the export succeeds, its text carries the stored roster with the images synchronised,
  the import of the text succeeds, and the stored roster is then the original one with
  the images synchronised: the original roster itself when its images already agree with
  the shipped ones.
\<close>

theorem export_import_roundtrip:
  assumes "ls_players s = Some r"
      and "cache_agrees s"
      and "\<forall>p\<in>set r. validatePlayer (as_partial p) = Success ()"
      and "list_all finite_player r"
      and "finite_settings s"
  shows "\<exists>txt d s1 s2. exportData ip s = (Success txt, s1) \<and>
           typed_parse txt = Some (Document d) \<and>
           export_players d = Some (syncPlayerImages ip r) \<and>
           importData (Document d) s1 = (Success (), s2) \<and>
           ls_players s2 = Some (syncPlayerImages ip r) \<and>
           (syncPlayerImages ip r = r \<longrightarrow> ls_players s2 = ls_players s)"
  using assms by (rule roundtrip_stored)

theorem export_import_roundtrip_witness:
  "ls_players browser0 = Some [batter] \<and> cache_agrees browser0
   \<and> validatePlayer (as_partial batter) = Success ()
   \<and> finite_player batter \<and> finite_settings browser0
   \<and> syncPlayerImages [] [batter] = [batter]
   \<and> (\<exists>txt d s1 s2. exportData [] browser0 = (Success txt, s1) \<and>
         typed_parse txt = Some (Document d) \<and>
         export_players d = Some [batter] \<and>
         importData (Document d) s1 = (Success (), s2) \<and>
         ls_players s2 = Some [batter] \<and> ls_players s2 = ls_players browser0)"
proof -
  have h1: "ls_players browser0 = Some [batter]" by (simp add: browser0_def)
  have h2: "cache_agrees browser0" by (simp add: cache_agrees_def browser0_def)
  have h3: "\<forall>p\<in>set [batter]. validatePlayer (as_partial p) = Success ()"
    by (simp add: batter_valid)
  have fb: "finite_player batter" by (simp add: finite_player_def batter_def)
  then have h4: "list_all finite_player [batter]" by simp
  have h5: "finite_settings browser0" by (simp add: finite_settings_def browser0_def)
  have sy: "syncPlayerImages [] [batter] = [batter]" by (simp add: syncPlayerImages_def)
  from export_import_roundtrip [OF h1 h2 h3 h4 h5, of "[]"] sy
  have "\<exists>txt d s1 s2. exportData [] browser0 = (Success txt, s1) \<and>
         typed_parse txt = Some (Document d) \<and>
         export_players d = Some [batter] \<and>
         importData (Document d) s1 = (Success (), s2) \<and>
         ls_players s2 = Some [batter] \<and> ls_players s2 = ls_players browser0"
    by simp
  with h1 h2 batter_valid fb h5 sy show ?thesis by blast
qed

text \<open>
  The counterexample to C3 as stated, in three parts. First, the stored roster holds one
  player whose name has a single letter: the export succeeds and the import of its text
  fails. Second, the stored player's image is not the shipped one: export and import
  succeed, and the roster stored afterwards differs from the one stored before. Third, a
  match with \<open>NaN\<close> runs has been recorded: the roster that the service returns holds
  \<open>NaN\<close> as the total of runs and passes validation, and the exported text holds
  \<open>null\<close> in its place.
\<close>

theorem export_import_failures:
  "(\<exists>txt d s1. exportData [] bad_browser = (Success txt, s1) \<and>
      typed_parse txt = Some (Document d) \<and>
      fst (importData (Document d) s1) =
        Failure ''Invalid player data: Player name must be at least 2 characters'')
   \<and> (\<exists>txt d s1 s2. exportData shipped stale_browser = (Success txt, s1) \<and>
      typed_parse txt = Some (Document d) \<and>
      importData (Document d) s1 = (Success (), s2) \<and>
      ls_players stale_browser = Some [stale_batter] \<and>
      ls_players s2 = Some [stale_batter\<lparr>player_image := Some ''new.png''\<rparr>])
   \<and> (\<exists>p txt s1 j. fst (getAllPlayers [] nan_browser) = Success [p] \<and>
      totalRuns p = NaN \<and> validatePlayer (as_partial p) = Success () \<and>
      exportData [] nan_browser = (Success txt, s1) \<and>
      text_players txt = Some [j] \<and> json_totalRuns j = JNull \<and> typed_parse txt = None)"
  using invalid_roster_not_imported stale_image_replaced nan_exported_as_null by (intro conjI)


subsection \<open>Guards against a zero divisor\<close>




subsection \<open>The consistency score of short lists\<close>

text \<open>
  Claim C5. \<open>calculateConsistencyScore\<close> returns exactly 50 for the empty list and for
  every list with fewer than two elements.
\<close>

theorem calculateConsistencyScore_short:
  "length values < 2 \<Longrightarrow> calculateConsistencyScore values = Num 50"
  by (simp add: calculateConsistencyScore_def)

theorem calculateConsistencyScore_short_witness:
  "length ([] :: number list) < 2 \<and> calculateConsistencyScore [] = Num 50
   \<and> length [Num 7] < 2 \<and> calculateConsistencyScore [Num 7] = Num 50"
  using calculateConsistencyScore_short [of "[]"] calculateConsistencyScore_short [of "[Num 7]"]
  by simp

subsection \<open>Comparing two values\<close>

text \<open>
  Claim C6. \<open>compareValues(a, b)\<close> returns \<open>equal\<close> whenever \<open>|a - b| < 0.01\<close>, else
  \<open>higher\<close> if \<open>a > b\<close>, else \<open>lower\<close>. For two finite numbers the tests are those of
  real arithmetic. When one of the two is \<open>NaN\<close> or infinite, \<open>|a - b|\<close> is infinite or
  \<open>NaN\<close> and never below 0.01, so that the answer is \<open>higher\<close> if \<open>a > b\<close> and \<open>lower\<close>
  otherwise.
\<close>

theorem compareValues_cases:
  "compareValues a b =
     (case (a, b) of
        (Num x, Num y) \<Rightarrow>
          if \<bar>x - y\<bar> < 0.01 then Equal else if y < x then Higher else Lower
      | _ \<Rightarrow> if js_gt a b then Higher else Lower)"
  by (cases a; cases b; simp add: compareValues_def js_defs)

theorem compareValues_cases_witness:
  "compareValues (Num 1.005) (Num 1) = Equal
   \<and> compareValues (Num 2) (Num 1) = Higher
   \<and> compareValues (Num 1) (Num 2) = Lower
   \<and> compareValues Infinity (Num 1) = Higher
   \<and> compareValues NaN (Num 1) = Lower"
  using compareValues_cases [of "Num 1.005" "Num 1"] compareValues_cases [of "Num 2" "Num 1"]
    compareValues_cases [of "Num 1" "Num 2"] compareValues_cases [of Infinity "Num 1"]
    compareValues_cases [of NaN "Num 1"]
  by (simp add: js_defs)

subsection \<open>The exponential moving average and the prediction\<close>

text \<open>
  Claim C7. \<open>calculateExponentialMovingAverage\<close> returns a list as long as its input;
  its first element is the first input value, and its element at each later index \<open>i\<close>
  is \<open>alpha * values[i] + (1 - alpha) *\<close> the element before it. On a list of at least
  two values \<open>predictNextValue\<close> returns the last element of this average for
  \<open>alpha = 0.4\<close>, multiplied by 1.05, 1 or 0.95.
\<close>

theorem ema_and_prediction:
  "length (calculateExponentialMovingAverage values alpha) = length values
   \<and> (values \<noteq> [] \<longrightarrow> calculateExponentialMovingAverage values alpha ! 0 = values ! 0)
   \<and> (\<forall>i. 0 < i \<and> i < length values \<longrightarrow>
        calculateExponentialMovingAverage values alpha ! i =
          js_add (js_mul alpha (values ! i))
            (js_mul (js_sub (Num 1) alpha)
               (calculateExponentialMovingAverage values alpha ! (i - 1))))
   \<and> (2 \<le> length values \<longrightarrow>
        predictNextValue values =
          js_mul (last (calculateExponentialMovingAverage values (Num 0.4))) (Num 1.05)
        \<or> predictNextValue values =
          js_mul (last (calculateExponentialMovingAverage values (Num 0.4))) (Num 1)
        \<or> predictNextValue values =
          js_mul (last (calculateExponentialMovingAverage values (Num 0.4))) (Num 0.95))"
  using ema_length ema_first ema_rec predict_trend_factor by blast

theorem ema_and_prediction_witness:
  "length (calculateExponentialMovingAverage [Num 10, Num 20, Num 30] (Num 0.5)) = 3
   \<and> calculateExponentialMovingAverage [Num 10, Num 20, Num 30] (Num 0.5) ! 0 = Num 10
   \<and> calculateExponentialMovingAverage [Num 10, Num 20, Num 30] (Num 0.5) ! 1 = Num 15
   \<and> calculateExponentialMovingAverage [Num 10, Num 20, Num 30] (Num 0.5) ! 2 = Num 22.5
   \<and> predictNextValue [Num 10, Num 20, Num 30] = Num 20.4"
  using ema_and_prediction [of "[Num 10, Num 20, Num 30]" "Num 0.5"]
  by (simp add: calculateExponentialMovingAverage_def predictNextValue_def
      calculateTrendDirection_def ema_loop.simps js_defs)

subsection \<open>Import is all or nothing\<close>

text \<open>
  Claim C9. If the text handed to \<open>importData\<close> does not parse, lacks a version or the
  players, or holds a player who fails validation, then \<open>importData\<close> answers with a
  failure and leaves the state of the browser, with the stored roster and settings, as
  it was. Otherwise every player of the text passed validation, the import succeeds, the
  stored roster is the text's list of players, and the settings are those of the text
  where it has some.
\<close>

theorem importData_atomic:
  "(import_rejects j \<longrightarrow> (\<exists>e. importData j s = (Failure e, s)))
   \<and> (\<not> import_rejects j \<longrightarrow>
        (\<exists>d ps s'. j = Document d \<and> export_players d = Some ps \<and>
           importData j s = (Success (), s') \<and> ls_players s' = Some ps \<and>
           ls_settings s' =
             (case export_settings d of None \<Rightarrow> ls_settings s | Some st \<Rightarrow> Some st) \<and>
           (\<forall>p\<in>set ps. validatePlayer (as_partial p) = Success ())))"
  using import_fail import_ok by blast

theorem importData_atomic_witness:
  "import_rejects Unparsable
   \<and> importData Unparsable browser0 = (Failure ''Failed to import data'', browser0)
   \<and> import_rejects (Document bad_doc)
   \<and> (\<exists>e. importData (Document bad_doc) browser0 = (Failure e, browser0))
   \<and> fst (importData (Document good_doc) bad_browser) = Success ()
   \<and> ls_players (snd (importData (Document good_doc) bad_browser)) = Some [batter]"
proof -
  have r1: "import_rejects Unparsable" by (simp add: import_rejects_def)
  have r2: "import_rejects (Document bad_doc)"
    by (simp add: import_rejects_def bad_doc_def good_doc_def nameless_invalid)
  have r3: "\<not> import_rejects (Document good_doc)"
    by (simp add: import_rejects_def good_doc_def batter_valid)
  from importData_atomic [of Unparsable browser0] r1
  have a: "importData Unparsable browser0 = (Failure ''Failed to import data'', browser0)"
    by (simp add: importData_def)
  from importData_atomic [of "Document bad_doc" browser0] r2
  have b: "\<exists>e. importData (Document bad_doc) browser0 = (Failure e, browser0)" by blast
  from importData_atomic [of "Document good_doc" bad_browser] r3
  have c: "fst (importData (Document good_doc) bad_browser) = Success ()
     \<and> ls_players (snd (importData (Document good_doc) bad_browser)) = Some [batter]"
    by (auto simp: good_doc_def)
  from r1 r2 a b c show ?thesis by blast
qed

subsection \<open>Recording the statistics of a match\<close>

text \<open>
  Claim C10. After a successful \<open>updatePlayerStats\<close> the player's \<open>runsPerMatch\<close> and
  \<open>wicketsPerMatch\<close> have at most ten elements and end with the runs and wickets just
  recorded, \<open>matchesPlayed\<close> has grown by exactly 1 and \<open>totalRuns\<close> by exactly the
  recorded runs. Here \<open>p\<close> is the player as \<open>getPlayerById\<close> found him before the
  update and \<open>p'\<close> the player that the call returns; \<open>p'\<close> is also the player stored
  under the id afterwards.
\<close>

theorem updatePlayerStats_success:
  assumes "updatePlayerStats ip pid runs wkts s = (Success p', s')"
  shows "\<exists>p s1 roster'. getPlayerById ip pid s = (Success p, s1) \<and>
     runsPerMatch p' = slice_last 9 (runsPerMatch p) @ [runs] \<and>
     wicketsPerMatch p' = slice_last 9 (wicketsPerMatch p) @ [wkts] \<and>
     length (runsPerMatch p') \<le> 10 \<and> length (wicketsPerMatch p') \<le> 10 \<and>
     last (runsPerMatch p') = runs \<and> last (wicketsPerMatch p') = wkts \<and>
     matchesPlayed p' = js_add (matchesPlayed p) (Num 1) \<and>
     totalRuns p' = js_add (totalRuns p) runs \<and>
     (\<forall>m. matchesPlayed p = Num m \<longrightarrow> matchesPlayed p' = Num (m + 1)) \<and>
     (\<forall>t r. totalRuns p = Num t \<and> runs = Num r \<longrightarrow> totalRuns p' = Num (t + r)) \<and>
     ls_players s' = Some roster' \<and> find (\<lambda>q. player_id q = pid) roster' = Some p'"
proof -
  let ?upd = "\<lambda>player. no_fields
                 \<lparr> opt_totalRuns := Some (js_add (totalRuns player) runs),
                   opt_wickets := Some (js_add (wickets player) wkts),
                   opt_matchesPlayed := Some (js_add (matchesPlayed player) (Num 1)),
                   opt_runsPerMatch := Some (slice_last 9 (runsPerMatch player) @ [runs]),
                   opt_wicketsPerMatch :=
                     Some (slice_last 9 (wicketsPerMatch player) @ [wkts]),
                   opt_battingAverage := Some (recalculateBattingAverage player runs) \<rparr>"
  obtain r s1 where g: "getPlayerById ip pid s = (r, s1)"
    by (cases "getPlayerById ip pid s")
  from assms g obtain p where p: "r = Success p"
    by (cases r) (auto simp: updatePlayerStats_def)
  from assms g p have u: "updatePlayer ip pid (?upd p) s1 = (Success p', s')"
    by (simp add: updatePlayerStats_def)
  from updatePlayer_success [OF u] obtain data s2 i where
    d: "getAllPlayers ip s1 = (Success data, s2)"
       "findIndex (\<lambda>p. player_id p = pid) data = Some i"
       "p' = spread (data ! i) (?upd p)" "ls_players s' = Some (data[i := p'])"
    by blast
  from findIndex_Some [OF d(2)] have "player_id (data ! i) = pid" by simp
  with d(3) have pid: "player_id p' = pid"
    by (simp add: spread_def no_fields_def or_else_def)
  from find_update [OF d(2), of p'] pid
  have f: "find (\<lambda>q. player_id q = pid) (data[i := p']) = Some p'" by simp
  have l9: "length (slice_last 9 (runsPerMatch p)) \<le> 9"
    "length (slice_last 9 (wicketsPerMatch p)) \<le> 9"
    by (rule length_slice_last)+
  from d(3) have fields:
    "runsPerMatch p' = slice_last 9 (runsPerMatch p) @ [runs]"
    "wicketsPerMatch p' = slice_last 9 (wicketsPerMatch p) @ [wkts]"
    "matchesPlayed p' = js_add (matchesPlayed p) (Num 1)"
    "totalRuns p' = js_add (totalRuns p) runs"
    by (simp_all add: spread_def no_fields_def or_else_def)
  from fields l9 have bounds:
    "length (runsPerMatch p') \<le> 10" "length (wicketsPerMatch p') \<le> 10"
    "last (runsPerMatch p') = runs" "last (wicketsPerMatch p') = wkts"
    by simp_all
  from fields have finite:
    "\<forall>m. matchesPlayed p = Num m \<longrightarrow> matchesPlayed p' = Num (m + 1)"
    "\<forall>t r. totalRuns p = Num t \<and> runs = Num r \<longrightarrow> totalRuns p' = Num (t + r)"
    by simp_all
  from g p fields bounds finite d(4) f show ?thesis by blast
qed

theorem updatePlayerStats_success_witness:
  "\<exists>p' s'. updatePlayerStats [] ''p1'' (Num 40) (Num 2) browser0 = (Success p', s')
     \<and> fst (getPlayerById [] ''p1'' browser0) = Success batter
     \<and> runsPerMatch p' = [Num 30, Num 54, Num 40]
     \<and> wicketsPerMatch p' = [Num 0, Num 0, Num 2]
     \<and> matchesPlayed p' = Num 21 \<and> totalRuns p' = Num 880
     \<and> (\<exists>roster'. ls_players s' = Some roster' \<and>
           find (\<lambda>q. player_id q = ''p1'') roster' = Some p')"
proof -
  have "\<exists>p'. fst (updatePlayerStats [] ''p1'' (Num 40) (Num 2) browser0) = Success p'"
    by (simp add: ds_defs browser0_def Let_def vp_defs batter_def js_defs)
  then obtain p' s' where
    eq: "updatePlayerStats [] ''p1'' (Num 40) (Num 2) browser0 = (Success p', s')"
    by (cases "updatePlayerStats [] ''p1'' (Num 40) (Num 2) browser0") auto
  have gp: "fst (getPlayerById [] ''p1'' browser0) = Success batter"
    by (simp add: ds_defs browser0_def Let_def batter_def)
  from updatePlayerStats_success [OF eq] obtain p s1 roster' where
    f: "getPlayerById [] ''p1'' browser0 = (Success p, s1)"
       "runsPerMatch p' = slice_last 9 (runsPerMatch p) @ [Num 40]"
       "wicketsPerMatch p' = slice_last 9 (wicketsPerMatch p) @ [Num 2]"
       "matchesPlayed p' = js_add (matchesPlayed p) (Num 1)"
       "totalRuns p' = js_add (totalRuns p) (Num 40)"
       "ls_players s' = Some roster'"
       "find (\<lambda>q. player_id q = ''p1'') roster' = Some p'"
    by blast
  from f(1) gp have "p = batter" by simp
  with f have
    "runsPerMatch p' = [Num 30, Num 54, Num 40]" "wicketsPerMatch p' = [Num 0, Num 0, Num 2]"
    "matchesPlayed p' = Num 21" "totalRuns p' = Num 880"
    by (simp_all add: batter_def slice_last_def)
  with eq gp f(6) f(7) show ?thesis by blast
qed

end
